theory Spec2Isabelle
  imports Main
begin

section \<open>The controller service of the EFS CSI driver (pkg/driver/controller.go)\<close>

text \<open>
  The three implemented volume-lifecycle calls of \<^verbatim>\<open>controller.go\<close> are embedded as
  total HOL functions: \<^verbatim>\<open>CreateVolume\<close>, \<^verbatim>\<open>DeleteVolume\<close> and
  \<^verbatim>\<open>ValidateVolumeCapabilities\<close>. A call returns either a gRPC status error or a
  response (\<open>Inl\<close> is the error), together with the list of calls it made, in order,
  to its collaborators: the cloud client, the mounter, the gid allocator, the uuid
  generator and the \<^verbatim>\<open>os\<close> package. What a collaborator answers is given by the
  record \<open>collaborators\<close>, one field for every call site of the source.
\<close>

subsection \<open>Constants\<close>

definition AccessPointMode :: string where "AccessPointMode = ''efs-ap''"
definition FsId :: string where "FsId = ''fileSystemId''"
definition GidMin :: string where "GidMin = ''gidRangeStart''"
definition GidMax :: string where "GidMax = ''gidRangeEnd''"
definition DirectoryPerms :: string where "DirectoryPerms = ''directoryPerms''"
definition BasePath :: string where "BasePath = ''basePath''"
definition ProvisioningMode :: string where "ProvisioningMode = ''provisioningMode''"
definition DefaultGidMin :: int where "DefaultGidMin = 50000"
definition DefaultGidMax :: int where "DefaultGidMax = 7000000"
definition RootDirPrefix :: string where "RootDirPrefix = ''efs-csi-ap''"
definition TempMountPathPrefix :: string where "TempMountPathPrefix = ''/var/lib/csi/pv''"
definition DefaultTagKey :: string where "DefaultTagKey = ''efs.csi.aws.com/cluster''"
definition DefaultTagValue :: string where "DefaultTagValue = ''true''"

subsection \<open>Errors\<close>

text \<open>
  The gRPC codes the file uses. A status error keeps its code, its format string and the
  arguments of the format, as \<^verbatim>\<open>status.Errorf(code, format, args...)\<close> is given them
  (\<^verbatim>\<open>status.Error(code, msg)\<close> has no arguments). The text that \<^verbatim>\<open>fmt\<close> makes
  of them is not computed: \<open>ArgErr\<close> stands for an error value printed with
  \<^verbatim>\<open>%v\<close>, \<open>ArgStr s\<close> for the string \<open>s\<close> printed with \<^verbatim>\<open>%v\<close> or \<^verbatim>\<open>%q\<close>.
\<close>

datatype code =
  InvalidArgument | NotFound | AlreadyExists | ResourceExhausted
  | Unauthenticated | Internal | Unimplemented

datatype arg = ArgStr string | ArgErr

datatype rpc_error = Status code string "arg list"

fun status_code :: "rpc_error \<Rightarrow> code" where
  "status_code (Status c m as) = c"

text \<open>
  The errors of the cloud client: the three sentinel values of package \<^verbatim>\<open>cloud\<close> that
  the controller compares with, and every other error.
\<close>

datatype cloud_error = ErrAccessDenied | ErrNotFound | ErrAlreadyExists | ErrOther

text \<open>An error of the mounter or of the \<^verbatim>\<open>os\<close> package; only its presence is used.\<close>

datatype os_error = OsError

text \<open>The error of the identifier codec.\<close>

datatype parse_error = InvalidFormat

subsection \<open>Go's standard library: strconv.Atoi, strconv.Itoa, strings.TrimSpace\<close>

definition digitVal :: "char \<Rightarrow> int option" where
  "digitVal c =
     (let n = (of_char c :: int) in if 48 \<le> n \<and> n \<le> 57 then Some (n - 48) else None)"

fun parseDigits :: "string \<Rightarrow> int \<Rightarrow> int option" where
  "parseDigits [] acc = Some acc"
| "parseDigits (c # cs) acc =
     (case digitVal c of None \<Rightarrow> None | Some v \<Rightarrow> parseDigits cs (acc * 10 + v))"

text \<open>
  \<^verbatim>\<open>strconv.Atoi\<close> on a 64-bit platform: an optional sign, then one decimal digit at
  least and nothing else; the value must fit \<^verbatim>\<open>int\<close>. \<open>None\<close> is a non-nil error
  (a syntax error or a range error).
\<close>

definition Atoi :: "string \<Rightarrow> int option" where
  "Atoi s =
     (let (neg, ds) =
            (case s of
               [] \<Rightarrow> (False, s)
             | c # r \<Rightarrow>
                 if c = CHR ''-'' then (True, r)
                 else if c = CHR ''+'' then (False, r) else (False, s))
      in if ds = [] then None
         else (case parseDigits ds 0 of
                 None \<Rightarrow> None
               | Some n \<Rightarrow>
                   (let v = (if neg then - n else n)
                    in if v < - (2 ^ 63) then None
                       else if 2 ^ 63 - 1 < v then None else Some v)))"

definition digitChar :: "nat \<Rightarrow> char" where
  "digitChar n = ''0123456789'' ! n"

fun natDigits :: "nat \<Rightarrow> string" where
  "natDigits n =
     (if n < 10 then [digitChar n] else natDigits (n div 10) @ [digitChar (n mod 10)])"

declare natDigits.simps [simp del]

text \<open>\<^verbatim>\<open>strconv.Itoa\<close>: the decimal rendering, with a minus sign below zero.\<close>

definition Itoa :: "int \<Rightarrow> string" where
  "Itoa i = (if i < 0 then CHR ''-'' # natDigits (nat (- i)) else natDigits (nat i))"

text \<open>
  \<open>allSpace bs\<close> holds when the bytes \<open>bs\<close> are the UTF-8 encoding of white space only,
  as \<^verbatim>\<open>unicode.IsSpace\<close> defines it: tab to carriage return, space, U+0085, U+00A0,
  U+1680, U+2000 to U+200A, U+2028, U+2029, U+202F, U+205F and U+3000.
\<close>

fun allSpace :: "nat list \<Rightarrow> bool" where
  "allSpace [] = True"
| "allSpace [b] = (9 \<le> b \<and> b \<le> 13 \<or> b = 32)"
| "allSpace [b, b2] =
     (if 9 \<le> b \<and> b \<le> 13 \<or> b = 32 then allSpace [b2]
      else b = 194 \<and> (b2 = 133 \<or> b2 = 160))"
| "allSpace (b # b2 # b3 # bs) =
     (if 9 \<le> b \<and> b \<le> 13 \<or> b = 32 then allSpace (b2 # b3 # bs)
      else if b = 194 then (b2 = 133 \<or> b2 = 160) \<and> allSpace (b3 # bs)
      else if b = 225 then b2 = 154 \<and> b3 = 128 \<and> allSpace bs
      else if b = 226 then
        (b2 = 128 \<and> (128 \<le> b3 \<and> b3 \<le> 138 \<or> b3 = 168 \<or> b3 = 169 \<or> b3 = 175)
           \<or> b2 = 129 \<and> b3 = 159) \<and> allSpace bs
      else if b = 227 then b2 = 128 \<and> b3 = 128 \<and> allSpace bs
      else False)"

text \<open>\<open>isBlank value\<close> is the test \<^verbatim>\<open>strings.TrimSpace(value) == ""\<close>.\<close>

definition isBlank :: "string \<Rightarrow> bool" where
  "isBlank s = allSpace (map of_char s)"

subsection \<open>Requests, responses and the driver\<close>

text \<open>The access modes of the storage interface; a capability is read for its mode only.\<close>

datatype access_mode =
  UNKNOWN | SINGLE_NODE_WRITER | SINGLE_NODE_READER_ONLY | MULTI_NODE_READER_ONLY
  | MULTI_NODE_SINGLE_WRITER | MULTI_NODE_MULTI_WRITER

record volume_capability =
  AccessMode :: access_mode

record capacity_range =
  RequiredBytes :: int
  LimitBytes :: int

record create_volume_request =
  Name :: string
  CapacityRange :: "capacity_range option"
  VolumeCapabilities :: "volume_capability list"
  Parameters :: "string \<rightharpoonup> string"

record volume =
  CapacityBytes :: int
  VolumeId :: string
  VolumeContext :: "string \<rightharpoonup> string"

record create_volume_response =
  Volume :: volume

record delete_volume_request =
  del_VolumeId :: string

datatype delete_volume_response = DeleteVolumeResponse

record validate_volume_capabilities_request =
  val_VolumeId :: string
  val_VolumeCapabilities :: "volume_capability list"

record confirmed =
  conf_VolumeCapabilities :: "volume_capability list"

record validate_volume_capabilities_response =
  Confirmed :: "confirmed option"

text \<open>\<^verbatim>\<open>req.GetCapacityRange().GetRequiredBytes()\<close>: zero when the range is nil.\<close>

definition GetRequiredBytes :: "capacity_range option \<Rightarrow> int" where
  "GetRequiredBytes r = (case r of None \<Rightarrow> 0 | Some c \<Rightarrow> RequiredBytes c)"

text \<open>The options and the access point of package \<^verbatim>\<open>cloud\<close>, with the fields this file uses.\<close>

record access_point_options =
  CapacityGiB :: int
  Tags :: "string \<rightharpoonup> string"
  FileSystemId :: string
  DirectoryPerms_opt :: string
  Gid :: int
  Uid :: int
  DirectoryPath :: string

record access_point =
  AccessPointId :: string
  AccessPointRootDir :: string

text \<open>
  The fields of \<^verbatim>\<open>Driver\<close> that the controller reads: the configured tags (a Go map,
  here its entries as a list) and the flag that enables the removal of the access
  point's root directory.
\<close>

record driver =
  tags :: "(string \<times> string) list"
  deleteAccessPointRootDir :: bool

text \<open>
  Two declarations of package \<^verbatim>\<open>driver\<close> are used by \<^verbatim>\<open>controller.go\<close> and
  declared in another file: the decoder \<^verbatim>\<open>parseVolumeId\<close> of volume identifiers, which
  returns the file system identifier, the subpath and the access point identifier, and
  the table \<^verbatim>\<open>volumeCapAccessModes\<close> of supported access modes. They are parameters
  of the model.
\<close>

record package =
  parseVolumeId :: "string \<Rightarrow> parse_error + (string \<times> string \<times> string)"
  volumeCapAccessModes :: "access_mode list"

text \<open>
  Modelled from the spec: \<^verbatim>\<open>isValidVolumeCapabilities\<close> is a method of the driver
  that is declared outside \<^verbatim>\<open>controller.go\<close>. The specification (section 4.5) gives
  it as a stateless predicate that checks every requested access mode against a fixed
  supported set.
\<close>

definition isValidVolumeCapabilities :: "package \<Rightarrow> volume_capability list \<Rightarrow> bool" where
  "isValidVolumeCapabilities p volCaps =
     list_all (\<lambda>c. AccessMode c \<in> set (volumeCapAccessModes p)) volCaps"

subsection \<open>Collaborators and the calls made to them\<close>

datatype call =
  DescribeFileSystem string
  | GetNextGid string int int
  | ReleaseGid string int
  | UuidNew
  | CreateAccessPoint string access_point_options
  | DescribeAccessPoint string
  | MakeDir string
  | Mount string string string "string list"
  | OsRemove string
  | OsRemoveAll string
  | Unmount string
  | DeleteAccessPoint string

text \<open>
  What each collaborator answers, as a function of the arguments it is called with.
  \<^verbatim>\<open>os.RemoveAll\<close> is called at two places of \<^verbatim>\<open>DeleteVolume\<close>, on the access
  point's root directory and on the mount target, and has one field for each. The result
  of \<^verbatim>\<open>DescribeFileSystem\<close> is discarded by the caller and the result of
  \<^verbatim>\<open>os.Remove\<close> is ignored, so only the error of the first is kept and the second
  has no field.
\<close>

record collaborators =
  cloud_DescribeFileSystem :: "string \<Rightarrow> cloud_error option"
  gidAllocator_getNextGid :: "string \<Rightarrow> int \<Rightarrow> int \<Rightarrow> rpc_error + int"
  uuid_New :: string
  cloud_CreateAccessPoint :: "string \<Rightarrow> access_point_options \<Rightarrow> cloud_error + access_point"
  cloud_DescribeAccessPoint :: "string \<Rightarrow> cloud_error + access_point"
  mounter_MakeDir :: "string \<Rightarrow> os_error option"
  mounter_Mount :: "string \<Rightarrow> string \<Rightarrow> string \<Rightarrow> string list \<Rightarrow> os_error option"
  os_RemoveAll_rootDir :: "string \<Rightarrow> os_error option"
  mounter_Unmount :: "string \<Rightarrow> os_error option"
  os_RemoveAll_target :: "string \<Rightarrow> os_error option"
  cloud_DeleteAccessPoint :: "string \<Rightarrow> cloud_error option"

subsection \<open>CreateVolume\<close>

text \<open>
  Lines 124 to 157: the gid range of the request. \<open>gidMin\<close> and \<open>gidMax\<close> start at
  zero, as Go's variables do; the result is the pair after the defaults are assigned.
\<close>

definition gidRange :: "(string \<rightharpoonup> string) \<Rightarrow> rpc_error + (int \<times> int)" where
  "gidRange volumeParams =
     (case (case volumeParams GidMin of
              Some value \<Rightarrow>
                (case Atoi value of
                   None \<Rightarrow>
                     Inl (Status InvalidArgument ''Failed to parse invalid %v: %v''
                            [ArgStr GidMin, ArgErr])
                 | Some gidMin \<Rightarrow>
                     if gidMin \<le> 0
                     then Inl (Status InvalidArgument ''%v must be greater than 0''
                                 [ArgStr GidMin])
                     else Inr gidMin)
            | None \<Rightarrow> Inr 0) of
        Inl e \<Rightarrow> Inl e
      | Inr gidMin \<Rightarrow>
          (case (case volumeParams GidMax of
                   Some value \<Rightarrow>
                     if gidMin = 0
                     then Inl (Status InvalidArgument ''Missing %v parameter'' [ArgStr GidMin])
                     else (case Atoi value of
                             None \<Rightarrow>
                               Inl (Status InvalidArgument ''Failed to parse invalid %v: %v''
                                      [ArgStr GidMax, ArgErr])
                           | Some gidMax \<Rightarrow>
                               if gidMax \<le> gidMin
                               then Inl (Status InvalidArgument ''%v must be greater than %v''
                                           [ArgStr GidMax, ArgStr GidMin])
                               else Inr gidMax)
                 | None \<Rightarrow>
                     if gidMin \<noteq> 0
                     then Inl (Status InvalidArgument ''Missing %v parameter'' [ArgStr GidMin])
                     else Inr 0) of
             Inl e \<Rightarrow> Inl e
           | Inr gidMax \<Rightarrow>
               if gidMin = 0 \<and> gidMax = 0 then Inr (DefaultGidMin, DefaultGidMax)
               else Inr (gidMin, gidMax)))"

text \<open>Lines 97 to 107: the default tag, then the driver's tags over it.\<close>

definition createTags :: "driver \<Rightarrow> (string \<rightharpoonup> string)" where
  "createTags d =
     (let tags0 = [DefaultTagKey \<mapsto> DefaultTagValue]
      in if length (tags d) \<noteq> 0 then fold (\<lambda>(k, v) m. m(k \<mapsto> v)) (tags d) tags0
         else tags0)"

text \<open>
  Lines 167 to 208: the calls to the collaborators, once the parameters are read.
\<close>

definition createAccessPoint ::
  "collaborators \<Rightarrow> string \<Rightarrow> int \<Rightarrow> access_point_options \<Rightarrow> int \<Rightarrow> int \<Rightarrow> string \<Rightarrow>
     (rpc_error + create_volume_response) \<times> call list" where
  "createAccessPoint w volName volSize accessPointsOptions gidMin gidMax basePath =
     (let fsId = FileSystemId accessPointsOptions in
      case cloud_DescribeFileSystem w fsId of
        Some err \<Rightarrow>
          (if err = ErrAccessDenied
           then Inl (Status Unauthenticated
                  ''Access Denied. Please ensure you have the right AWS permissions: %v''
                  [ArgErr])
           else if err = ErrNotFound
           then Inl (Status InvalidArgument ''File System does not exist: %v'' [ArgErr])
           else Inl (Status Internal ''Failed to fetch File System info: %v'' [ArgErr]),
           [DescribeFileSystem fsId])
      | None \<Rightarrow>
          (case gidAllocator_getNextGid w fsId gidMin gidMax of
             Inl err \<Rightarrow> (Inl err, [DescribeFileSystem fsId, GetNextGid fsId gidMin gidMax])
           | Inr gid \<Rightarrow>
               (let gidStr = Itoa gid;
                    rootDirName = RootDirPrefix @ ''-'' @ gidStr @ ''-'' @ uuid_New w;
                    rootDir = basePath @ ''/'' @ rootDirName;
                    accessPointsOptions =
                      accessPointsOptions\<lparr>Gid := gid, Uid := gid, DirectoryPath := rootDir\<rparr>;
                    calls = [DescribeFileSystem fsId, GetNextGid fsId gidMin gidMax, UuidNew,
                             CreateAccessPoint volName accessPointsOptions]
                in case cloud_CreateAccessPoint w volName accessPointsOptions of
                     Inl err \<Rightarrow>
                       (if err = ErrAccessDenied
                        then Inl (Status Unauthenticated
                               ''Access Denied. Please ensure you have the right AWS permissions: %v''
                               [ArgErr])
                        else if err = ErrAlreadyExists
                        then Inl (Status AlreadyExists ''Access Point already exists'' [])
                        else Inl (Status Internal
                               ''Failed to create Access point in File System %v : %v''
                               [ArgStr (FileSystemId accessPointsOptions), ArgErr]),
                        calls @ [ReleaseGid (FileSystemId accessPointsOptions) gid])
                   | Inr accessPointId \<Rightarrow>
                       (Inr \<lparr>Volume =
                              \<lparr>CapacityBytes = volSize,
                               VolumeId = FileSystemId accessPointsOptions @ ''::''
                                 @ AccessPointId accessPointId,
                               VolumeContext = Map.empty\<rparr>\<rparr>,
                        calls))))"

text \<open>
  Lines 56 to 165: the request is validated and its parameters are read. The values
  that the source computes between the checks (the size, the tags, the options) are
  bound first: computing them has no effect and cannot fail.
\<close>

definition CreateVolume ::
  "package \<Rightarrow> driver \<Rightarrow> collaborators \<Rightarrow> create_volume_request \<Rightarrow>
     (rpc_error + create_volume_response) \<times> call list" where
  "CreateVolume p d w req =
     (let volName = Name req;
          volSize = GetRequiredBytes (CapacityRange req);
          volCaps = VolumeCapabilities req;
          volumeParams = Parameters req;
          accessPointsOptions =
            \<lparr>CapacityGiB = volSize, Tags = createTags d, FileSystemId = [],
             DirectoryPerms_opt = [], Gid = 0, Uid = 0, DirectoryPath = []\<rparr>
      in
      if volName = [] then (Inl (Status InvalidArgument ''Volume name not provided'' []), [])
      else if length volCaps = 0
      then (Inl (Status InvalidArgument ''Volume capabilities not provided'' []), [])
      else if \<not> isValidVolumeCapabilities p volCaps
      then (Inl (Status InvalidArgument ''Volume capabilities not supported'' []), [])
      else
        (case volumeParams ProvisioningMode of
           None \<Rightarrow>
             (Inl (Status InvalidArgument ''Missing %v parameter'' [ArgStr ProvisioningMode]),
              [])
         | Some provisioningMode \<Rightarrow>
             if provisioningMode \<noteq> AccessPointMode
             then (Inl (Status InvalidArgument
                     (''Provisioning mode '' @ provisioningMode
                        @ '' is not supported. Only Access point provisioning: 'efs-ap' is supported'')
                     []), [])
             else
               (case volumeParams FsId of
                  None \<Rightarrow>
                    (Inl (Status InvalidArgument ''Missing %v parameter'' [ArgStr FsId]), [])
                | Some fsValue \<Rightarrow>
                    if isBlank fsValue
                    then (Inl (Status InvalidArgument ''Parameter %v cannot be empty''
                                 [ArgStr FsId]), [])
                    else
                      (case gidRange volumeParams of
                         Inl e \<Rightarrow> (Inl e, [])
                       | Inr (gidMin, gidMax) \<Rightarrow>
                           createAccessPoint w volName volSize
                             (case volumeParams DirectoryPerms of
                                Some permsValue \<Rightarrow>
                                  accessPointsOptions
                                    \<lparr>FileSystemId := fsValue, DirectoryPerms_opt := permsValue\<rparr>
                              | None \<Rightarrow> accessPointsOptions\<lparr>FileSystemId := fsValue\<rparr>)
                             gidMin gidMax
                             (case volumeParams BasePath of
                                Some baseValue \<Rightarrow> baseValue
                              | None \<Rightarrow> [])))))"

subsection \<open>DeleteVolume\<close>

text \<open>
  Lines 229 to 266: the removal of the access point's root directory. \<open>Some r\<close> is
  a return of \<^verbatim>\<open>DeleteVolume\<close> with \<open>r\<close> from inside the block, \<open>None\<close> is the
  end of the block, after which the access point is deleted.
\<close>

definition removeRootDir ::
  "collaborators \<Rightarrow> string \<Rightarrow> string \<Rightarrow>
     (rpc_error + delete_volume_response) option \<times> call list" where
  "removeRootDir w fileSystemId accessPointId =
     (case cloud_DescribeAccessPoint w accessPointId of
        Inl err \<Rightarrow>
          (if err = ErrAccessDenied
           then Some (Inl (Status Unauthenticated
                  ''Access Denied. Please ensure you have the right AWS permissions: %v''
                  [ArgErr]))
           else if err = ErrNotFound then Some (Inr DeleteVolumeResponse)
           else Some (Inl (Status Internal
                  ''Could not get describe Access Point: %v , error: %v''
                  [ArgStr accessPointId, ArgErr])),
           [DescribeAccessPoint accessPointId])
      | Inr accessPoint \<Rightarrow>
          (let mountOptions = [''tls''];
               target = TempMountPathPrefix @ ''/'' @ accessPointId
           in case mounter_MakeDir w target of
                Some err \<Rightarrow>
                  (Some (Inl (Status Internal ''Could not create dir %q: %v''
                                [ArgStr target, ArgErr])),
                   [DescribeAccessPoint accessPointId, MakeDir target])
              | None \<Rightarrow>
                  (case mounter_Mount w fileSystemId target ''efs'' mountOptions of
                     Some err \<Rightarrow>
                       (Some (Inl (Status Internal ''Could not mount %q at %q: %v''
                                     [ArgStr fileSystemId, ArgStr target, ArgErr])),
                        [DescribeAccessPoint accessPointId, MakeDir target,
                         Mount fileSystemId target ''efs'' mountOptions, OsRemove target])
                   | None \<Rightarrow>
                       (case os_RemoveAll_rootDir w (target @ AccessPointRootDir accessPoint) of
                          Some err \<Rightarrow>
                            (Some (Inl (Status Internal
                                     ''Could not delete access point root directory %q: %v''
                                     [ArgStr (AccessPointRootDir accessPoint), ArgErr])),
                             [DescribeAccessPoint accessPointId, MakeDir target,
                              Mount fileSystemId target ''efs'' mountOptions,
                              OsRemoveAll (target @ AccessPointRootDir accessPoint)])
                        | None \<Rightarrow>
                            (case mounter_Unmount w target of
                               Some err \<Rightarrow>
                                 (Some (Inl (Status Internal ''Could not unmount %q: %v''
                                               [ArgStr target, ArgErr])),
                                  [DescribeAccessPoint accessPointId, MakeDir target,
                                   Mount fileSystemId target ''efs'' mountOptions,
                                   OsRemoveAll (target @ AccessPointRootDir accessPoint),
                                   Unmount target])
                             | None \<Rightarrow>
                                 (case os_RemoveAll_target w target of
                                    Some err \<Rightarrow>
                                      (Some (Inl (Status Internal ''Could not delete %q: %v''
                                                    [ArgStr target, ArgErr])),
                                       [DescribeAccessPoint accessPointId, MakeDir target,
                                        Mount fileSystemId target ''efs'' mountOptions,
                                        OsRemoveAll (target @ AccessPointRootDir accessPoint),
                                        Unmount target, OsRemoveAll target])
                                  | None \<Rightarrow>
                                      (None,
                                       [DescribeAccessPoint accessPointId, MakeDir target,
                                        Mount fileSystemId target ''efs'' mountOptions,
                                        OsRemoveAll (target @ AccessPointRootDir accessPoint),
                                        Unmount target, OsRemoveAll target])))))))"

text \<open>Lines 268 to 278: the access point is deleted; \<open>calls\<close> are the calls made before.\<close>

definition deleteAccessPoint ::
  "collaborators \<Rightarrow> string \<Rightarrow> string \<Rightarrow> call list \<Rightarrow>
     (rpc_error + delete_volume_response) \<times> call list" where
  "deleteAccessPoint w volId accessPointId calls =
     (case cloud_DeleteAccessPoint w accessPointId of
        Some err \<Rightarrow>
          (if err = ErrAccessDenied
           then Inl (Status Unauthenticated
                  ''Access Denied. Please ensure you have the right AWS permissions: %v''
                  [ArgErr])
           else if err = ErrNotFound then Inr DeleteVolumeResponse
           else Inl (Status Internal ''Failed to Delete volume %v: %v'' [ArgStr volId, ArgErr]),
           calls @ [DeleteAccessPoint accessPointId])
      | None \<Rightarrow> (Inr DeleteVolumeResponse, calls @ [DeleteAccessPoint accessPointId]))"

definition DeleteVolume ::
  "package \<Rightarrow> driver \<Rightarrow> collaborators \<Rightarrow> delete_volume_request \<Rightarrow>
     (rpc_error + delete_volume_response) \<times> call list" where
  "DeleteVolume p d w req =
     (let volId = del_VolumeId req in
      if volId = [] then (Inl (Status InvalidArgument ''Volume ID not provided'' []), [])
      else
        (case parseVolumeId p volId of
           Inl err \<Rightarrow> (Inr DeleteVolumeResponse, [])
         | Inr (fileSystemId, subpath, accessPointId) \<Rightarrow>
             if accessPointId \<noteq> []
             then
               (if deleteAccessPointRootDir d
                then
                  (case removeRootDir w fileSystemId accessPointId of
                     (Some r, calls) \<Rightarrow> (r, calls)
                   | (None, calls) \<Rightarrow> deleteAccessPoint w volId accessPointId calls)
                else deleteAccessPoint w volId accessPointId [])
             else
               (Inl (Status NotFound ''Failed to find access point for volume: %v''
                       [ArgStr volId]), [])))"

subsection \<open>ValidateVolumeCapabilities\<close>

definition ValidateVolumeCapabilities ::
  "package \<Rightarrow> validate_volume_capabilities_request \<Rightarrow>
     rpc_error + validate_volume_capabilities_response" where
  "ValidateVolumeCapabilities p req =
     (let volId = val_VolumeId req;
          volCaps = val_VolumeCapabilities req
      in
      if volId = [] then Inl (Status InvalidArgument ''Volume ID not provided'' [])
      else if length volCaps = 0
      then Inl (Status InvalidArgument ''Volume capabilities not provided'' [])
      else
        (case parseVolumeId p volId of
           Inl err \<Rightarrow> Inl (Status NotFound ''Volume not found, err: %v'' [ArgErr])
         | Inr parsed \<Rightarrow>
             Inr \<lparr>Confirmed =
                    (if isValidVolumeCapabilities p volCaps
                     then Some \<lparr>conf_VolumeCapabilities = volCaps\<rparr>
                     else None)\<rparr>))"

subsection \<open>The identifier codec of the specification\<close>

text \<open>\<open>splitOn d s\<close> are the segments of \<open>s\<close> between the occurrences of \<open>d\<close>.\<close>

fun splitOn :: "char \<Rightarrow> string \<Rightarrow> string list" where
  "splitOn d [] = [[]]"
| "splitOn d (c # cs) =
     (if c = d then [] # splitOn d cs
      else (case splitOn d cs of
              [] \<Rightarrow> [[c]]
            | x # xs \<Rightarrow> (c # x) # xs))"

text \<open>
  Modelled from the spec: the decoder of volume identifiers (\<^verbatim>\<open>parseVolumeId\<close> in the
  source, declared outside \<^verbatim>\<open>controller.go\<close>). The specification (section 4.2) gives
  \<^verbatim>\<open>decode(string)\<close> as returning \<^verbatim>\<open>(fileSystemId, subPath, accessPointId)\<close> or
  \<^verbatim>\<open>InvalidFormat\<close>, over a fixed delimiter that no field value may contain, where an
  empty subpath still occupies a delimited segment (\<^verbatim>\<open>fsId::apId\<close> decodes to an empty
  subpath); it fails when fewer than three delimited segments are present or when the
  file system identifier or the access point identifier is empty. The delimiter is the
  colon. An identifier of more than three segments is the encoding of no triple of
  delimiter-free fields, and is rejected here as well.
\<close>

definition decode :: "string \<Rightarrow> parse_error + (string \<times> string \<times> string)" where
  "decode s =
     (case splitOn CHR '':'' s of
        [fileSystemId, subPath, accessPointId] \<Rightarrow>
          if fileSystemId = [] then Inl InvalidFormat
          else if accessPointId = [] then Inl InvalidFormat
          else Inr (fileSystemId, subPath, accessPointId)
      | _ \<Rightarrow> Inl InvalidFormat)"

subsection \<open>Reading a result\<close>

text \<open>The code of the error a call returns, as \<^verbatim>\<open>status.Code\<close> reads it; \<open>None\<close> on success.\<close>

definition codeOf :: "rpc_error + 'a \<Rightarrow> code option" where
  "codeOf r = (case r of Inl e \<Rightarrow> Some (status_code e) | Inr v \<Rightarrow> None)"

subsection \<open>Example inputs\<close>

text \<open>
  A package whose decoder is the codec of the specification, and one whose decoder
  accepts a bare file system identifier as well, with no access point.
\<close>

definition examplePackage :: package where
  "examplePackage =
     \<lparr>parseVolumeId = decode,
      volumeCapAccessModes = [SINGLE_NODE_WRITER, MULTI_NODE_MULTI_WRITER]\<rparr>"

definition bareIdPackage :: package where
  "bareIdPackage =
     \<lparr>parseVolumeId =
        (\<lambda>s. if s = [] then Inl InvalidFormat
             else if CHR '':'' \<in> set s then decode s
             else Inr (s, [], [])),
      volumeCapAccessModes = [SINGLE_NODE_WRITER, MULTI_NODE_MULTI_WRITER]\<rparr>"

definition exampleDriver :: driver where
  "exampleDriver = \<lparr>tags = [], deleteAccessPointRootDir = False\<rparr>"

definition cleanupDriver :: driver where
  "cleanupDriver = \<lparr>tags = [], deleteAccessPointRootDir = True\<rparr>"

text \<open>
  Collaborators that succeed at every call: the allocator hands out the start of the
  range, the cloud creates the access point \<^verbatim>\<open>ap-1\<close> and describes it with the root
  directory \<^verbatim>\<open>/efs-csi-ap-50000-u1\<close>.
\<close>

definition exampleCollaborators :: collaborators where
  "exampleCollaborators =
     \<lparr>cloud_DescribeFileSystem = (\<lambda>fsId. None),
      gidAllocator_getNextGid = (\<lambda>fsId gidMin gidMax. Inr gidMin),
      uuid_New = ''u1'',
      cloud_CreateAccessPoint =
        (\<lambda>volName opts.
           Inr \<lparr>AccessPointId = ''ap-1'', AccessPointRootDir = DirectoryPath opts\<rparr>),
      cloud_DescribeAccessPoint =
        (\<lambda>apId. Inr \<lparr>AccessPointId = apId, AccessPointRootDir = ''/efs-csi-ap-50000-u1''\<rparr>),
      mounter_MakeDir = (\<lambda>target. None),
      mounter_Mount = (\<lambda>source target fstype options. None),
      os_RemoveAll_rootDir = (\<lambda>path. None),
      mounter_Unmount = (\<lambda>target. None),
      os_RemoveAll_target = (\<lambda>path. None),
      cloud_DeleteAccessPoint = (\<lambda>apId. None)\<rparr>"

text \<open>Scenario A of the specification, with a capacity of one GiB.\<close>

definition exampleRequest :: create_volume_request where
  "exampleRequest =
     \<lparr>Name = ''v1'',
      CapacityRange = Some \<lparr>RequiredBytes = 1073741824, LimitBytes = 0\<rparr>,
      VolumeCapabilities = [\<lparr>AccessMode = MULTI_NODE_MULTI_WRITER\<rparr>],
      Parameters = [''provisioningMode'' \<mapsto> ''efs-ap'', ''fileSystemId'' \<mapsto> ''fs-1'']\<rparr>"

text \<open>
  Variants of the example: the cloud refuses to create the access point; the access
  point is already gone; the removal of the access point's root directory fails.
\<close>

definition refusingCollaborators :: collaborators where
  "refusingCollaborators =
     exampleCollaborators\<lparr>cloud_CreateAccessPoint := (\<lambda>volName opts. Inl ErrAlreadyExists)\<rparr>"

definition goneCollaborators :: collaborators where
  "goneCollaborators =
     exampleCollaborators
       \<lparr>cloud_DescribeAccessPoint := (\<lambda>apId. Inl ErrNotFound),
        cloud_DeleteAccessPoint := (\<lambda>apId. Some ErrNotFound)\<rparr>"

definition stuckCollaborators :: collaborators where
  "stuckCollaborators =
     exampleCollaborators\<lparr>os_RemoveAll_rootDir := (\<lambda>path. Some OsError)\<rparr>"

text \<open>The example request with an explicit gid range, and with the end of a range only.\<close>

definition rangeRequest :: create_volume_request where
  "rangeRequest =
     exampleRequest
       \<lparr>Parameters :=
          [''provisioningMode'' \<mapsto> ''efs-ap'', ''fileSystemId'' \<mapsto> ''fs-1'',
           ''gidRangeStart'' \<mapsto> ''1000'', ''gidRangeEnd'' \<mapsto> ''2000'',
           ''basePath'' \<mapsto> ''/vols'']\<rparr>"

definition halfRangeRequest :: create_volume_request where
  "halfRangeRequest =
     exampleRequest
       \<lparr>Parameters :=
          [''provisioningMode'' \<mapsto> ''efs-ap'', ''fileSystemId'' \<mapsto> ''fs-1'',
           ''gidRangeEnd'' \<mapsto> ''2000'']\<rparr>"

text \<open>The example request for a file system identifier that contains the delimiter.\<close>

definition colonRequest :: create_volume_request where
  "colonRequest =
     exampleRequest
       \<lparr>Parameters :=
          [''provisioningMode'' \<mapsto> ''efs-ap'', ''fileSystemId'' \<mapsto> ''fs:1'']\<rparr>"

section \<open>Properties\<close>

lemmas consts_defs =
  AccessPointMode_def FsId_def GidMin_def GidMax_def DirectoryPerms_def BasePath_def
  ProvisioningMode_def DefaultGidMin_def DefaultGidMax_def RootDirPrefix_def
  TempMountPathPrefix_def DefaultTagKey_def DefaultTagValue_def

subsection \<open>The paths of CreateVolume\<close>

lemma gidRange_Inl: "gidRange ps = Inl e \<Longrightarrow> status_code e = InvalidArgument"
  by (auto simp: gidRange_def split: option.splits if_splits sum.splits)

lemma gidRange_Inr:
  "gidRange ps = Inr (lo, hi) \<Longrightarrow>
     (ps GidMin = None \<and> ps GidMax = None \<and> lo = DefaultGidMin \<and> hi = DefaultGidMax)
     \<or> (\<exists>a b. ps GidMin = Some a \<and> ps GidMax = Some b \<and> Atoi a = Some lo \<and> Atoi b = Some hi
           \<and> 0 < lo \<and> lo < hi)"
  by (auto simp: gidRange_def split: option.splits if_splits sum.splits)

lemma CreateVolume_no_name:
  "Name req = [] \<Longrightarrow>
   CreateVolume p d w req = (Inl (Status InvalidArgument ''Volume name not provided'' []), [])"
  by (simp add: CreateVolume_def Let_def)

lemma CreateVolume_no_caps:
  "Name req \<noteq> [] \<Longrightarrow> VolumeCapabilities req = [] \<Longrightarrow>
   CreateVolume p d w req =
     (Inl (Status InvalidArgument ''Volume capabilities not provided'' []), [])"
  by (simp add: CreateVolume_def Let_def)

lemma CreateVolume_bad_caps:
  "Name req \<noteq> [] \<Longrightarrow> VolumeCapabilities req \<noteq> [] \<Longrightarrow>
   \<not> isValidVolumeCapabilities p (VolumeCapabilities req) \<Longrightarrow>
   CreateVolume p d w req =
     (Inl (Status InvalidArgument ''Volume capabilities not supported'' []), [])"
  by (simp add: CreateVolume_def Let_def)

lemma CreateVolume_no_mode:
  "Name req \<noteq> [] \<Longrightarrow> VolumeCapabilities req \<noteq> [] \<Longrightarrow>
   isValidVolumeCapabilities p (VolumeCapabilities req) \<Longrightarrow>
   Parameters req ProvisioningMode = None \<Longrightarrow>
   CreateVolume p d w req =
     (Inl (Status InvalidArgument ''Missing %v parameter'' [ArgStr ProvisioningMode]), [])"
  by (simp add: CreateVolume_def Let_def)

lemma CreateVolume_bad_mode:
  "Name req \<noteq> [] \<Longrightarrow> VolumeCapabilities req \<noteq> [] \<Longrightarrow>
   isValidVolumeCapabilities p (VolumeCapabilities req) \<Longrightarrow>
   Parameters req ProvisioningMode = Some m \<Longrightarrow> m \<noteq> AccessPointMode \<Longrightarrow>
   CreateVolume p d w req =
     (Inl (Status InvalidArgument
        (''Provisioning mode '' @ m
           @ '' is not supported. Only Access point provisioning: 'efs-ap' is supported'') []),
      [])"
  by (simp add: CreateVolume_def Let_def)

lemma CreateVolume_no_fs:
  "Name req \<noteq> [] \<Longrightarrow> VolumeCapabilities req \<noteq> [] \<Longrightarrow>
   isValidVolumeCapabilities p (VolumeCapabilities req) \<Longrightarrow>
   Parameters req ProvisioningMode = Some AccessPointMode \<Longrightarrow>
   Parameters req FsId = None \<Longrightarrow>
   CreateVolume p d w req =
     (Inl (Status InvalidArgument ''Missing %v parameter'' [ArgStr FsId]), [])"
  by (simp add: CreateVolume_def Let_def)

lemma CreateVolume_blank_fs:
  "Name req \<noteq> [] \<Longrightarrow> VolumeCapabilities req \<noteq> [] \<Longrightarrow>
   isValidVolumeCapabilities p (VolumeCapabilities req) \<Longrightarrow>
   Parameters req ProvisioningMode = Some AccessPointMode \<Longrightarrow>
   Parameters req FsId = Some v \<Longrightarrow> isBlank v \<Longrightarrow>
   CreateVolume p d w req =
     (Inl (Status InvalidArgument ''Parameter %v cannot be empty'' [ArgStr FsId]), [])"
  by (simp add: CreateVolume_def Let_def)

lemma CreateVolume_bad_gid:
  "Name req \<noteq> [] \<Longrightarrow> VolumeCapabilities req \<noteq> [] \<Longrightarrow>
   isValidVolumeCapabilities p (VolumeCapabilities req) \<Longrightarrow>
   Parameters req ProvisioningMode = Some AccessPointMode \<Longrightarrow>
   Parameters req FsId = Some v \<Longrightarrow> \<not> isBlank v \<Longrightarrow>
   gidRange (Parameters req) = Inl e \<Longrightarrow>
   CreateVolume p d w req = (Inl e, [])"
  by (simp add: CreateVolume_def Let_def)

lemma CreateVolume_valid:
  "Name req \<noteq> [] \<Longrightarrow> VolumeCapabilities req \<noteq> [] \<Longrightarrow>
   isValidVolumeCapabilities p (VolumeCapabilities req) \<Longrightarrow>
   Parameters req ProvisioningMode = Some AccessPointMode \<Longrightarrow>
   Parameters req FsId = Some v \<Longrightarrow> \<not> isBlank v \<Longrightarrow>
   gidRange (Parameters req) = Inr (lo, hi) \<Longrightarrow>
   CreateVolume p d w req =
     createAccessPoint w (Name req) (GetRequiredBytes (CapacityRange req))
       \<lparr>CapacityGiB = GetRequiredBytes (CapacityRange req), Tags = createTags d,
        FileSystemId = v,
        DirectoryPerms_opt = (case Parameters req DirectoryPerms of Some x \<Rightarrow> x | None \<Rightarrow> []),
        Gid = 0, Uid = 0, DirectoryPath = []\<rparr>
       lo hi (case Parameters req BasePath of Some b \<Rightarrow> b | None \<Rightarrow> [])"
  by (cases "Parameters req DirectoryPerms") (simp_all add: CreateVolume_def Let_def)

lemma CreateVolume_cases:
  "(codeOf (fst (CreateVolume p d w req)) = Some InvalidArgument \<and> snd (CreateVolume p d w req) = [])
   \<or> (\<exists>fs lo hi opts0.
         Name req \<noteq> [] \<and> VolumeCapabilities req \<noteq> []
         \<and> isValidVolumeCapabilities p (VolumeCapabilities req)
         \<and> Parameters req ProvisioningMode = Some AccessPointMode
         \<and> Parameters req FsId = Some fs \<and> \<not> isBlank fs
         \<and> gidRange (Parameters req) = Inr (lo, hi)
         \<and> FileSystemId opts0 = fs
         \<and> CreateVolume p d w req =
             createAccessPoint w (Name req) (GetRequiredBytes (CapacityRange req)) opts0 lo hi
               (case Parameters req BasePath of Some b \<Rightarrow> b | None \<Rightarrow> []))"
proof -
  consider (name) "Name req = []"
    | (nocaps) "Name req \<noteq> []" "VolumeCapabilities req = []"
    | (badcaps) "Name req \<noteq> []" "VolumeCapabilities req \<noteq> []"
        "\<not> isValidVolumeCapabilities p (VolumeCapabilities req)"
    | (ok) "Name req \<noteq> []" "VolumeCapabilities req \<noteq> []"
        "isValidVolumeCapabilities p (VolumeCapabilities req)"
    by blast
  then show ?thesis
  proof cases
    case name
    then show ?thesis by (simp add: CreateVolume_no_name codeOf_def)
  next
    case nocaps
    then show ?thesis by (simp add: CreateVolume_no_caps codeOf_def)
  next
    case badcaps
    then show ?thesis by (simp add: CreateVolume_bad_caps codeOf_def)
  next
    case ok
    show ?thesis
    proof (cases "Parameters req ProvisioningMode")
      case None
      with ok show ?thesis by (simp add: CreateVolume_no_mode codeOf_def)
    next
      case (Some m)
      show ?thesis
      proof (cases "m = AccessPointMode")
        case False
        with ok Some show ?thesis by (simp add: CreateVolume_bad_mode codeOf_def)
      next
        case True
        note mode = Some [unfolded True]
        show ?thesis
        proof (cases "Parameters req FsId")
          case None
          with ok mode show ?thesis by (simp add: CreateVolume_no_fs codeOf_def)
        next
          case fs: (Some v)
          show ?thesis
          proof (cases "isBlank v")
            case True
            with ok mode fs show ?thesis by (simp add: CreateVolume_blank_fs codeOf_def)
          next
            case False
            show ?thesis
            proof (cases "gidRange (Parameters req)")
              case (Inl e)
              from CreateVolume_bad_gid [OF ok mode fs False Inl] gidRange_Inl [OF Inl]
              show ?thesis by (simp add: codeOf_def)
            next
              case (Inr r)
              obtain lo hi where r: "r = (lo, hi)" by (cases r)
              let ?o = "\<lparr>CapacityGiB = GetRequiredBytes (CapacityRange req), Tags = createTags d,
                FileSystemId = v,
                DirectoryPerms_opt =
                  (case Parameters req DirectoryPerms of Some x \<Rightarrow> x | None \<Rightarrow> []),
                Gid = 0, Uid = 0, DirectoryPath = []\<rparr>"
              have "FileSystemId ?o = v" by simp
              moreover note CreateVolume_valid [OF ok mode fs False Inr [unfolded r], of d w]
              ultimately show ?thesis using ok mode fs False Inr r by blast
            qed
          qed
        qed
      qed
    qed
  qed
qed


lemma createAccessPoint_describe_fails:
  "cloud_DescribeFileSystem w (FileSystemId o0) = Some err \<Longrightarrow>
   createAccessPoint w n0 sz o0 lo hi bp =
     (if err = ErrAccessDenied
      then Inl (Status Unauthenticated
             ''Access Denied. Please ensure you have the right AWS permissions: %v'' [ArgErr])
      else if err = ErrNotFound
      then Inl (Status InvalidArgument ''File System does not exist: %v'' [ArgErr])
      else Inl (Status Internal ''Failed to fetch File System info: %v'' [ArgErr]),
      [DescribeFileSystem (FileSystemId o0)])"
  by (simp add: createAccessPoint_def Let_def)

lemma createAccessPoint_exhausted:
  "cloud_DescribeFileSystem w (FileSystemId o0) = None \<Longrightarrow>
   gidAllocator_getNextGid w (FileSystemId o0) lo hi = Inl e \<Longrightarrow>
   createAccessPoint w n0 sz o0 lo hi bp =
     (Inl e, [DescribeFileSystem (FileSystemId o0), GetNextGid (FileSystemId o0) lo hi])"
  by (simp add: createAccessPoint_def Let_def)

lemma createAccessPoint_create_fails:
  "cloud_DescribeFileSystem w (FileSystemId o0) = None \<Longrightarrow>
   gidAllocator_getNextGid w (FileSystemId o0) lo hi = Inr gid \<Longrightarrow>
   opts = o0\<lparr>Gid := gid, Uid := gid,
            DirectoryPath := bp @ ''/'' @ RootDirPrefix @ ''-'' @ Itoa gid @ ''-'' @ uuid_New w\<rparr> \<Longrightarrow>
   cloud_CreateAccessPoint w n0 opts = Inl err \<Longrightarrow>
   createAccessPoint w n0 sz o0 lo hi bp =
     (if err = ErrAccessDenied
      then Inl (Status Unauthenticated
             ''Access Denied. Please ensure you have the right AWS permissions: %v'' [ArgErr])
      else if err = ErrAlreadyExists
      then Inl (Status AlreadyExists ''Access Point already exists'' [])
      else Inl (Status Internal ''Failed to create Access point in File System %v : %v''
             [ArgStr (FileSystemId o0), ArgErr]),
      [DescribeFileSystem (FileSystemId o0), GetNextGid (FileSystemId o0) lo hi, UuidNew,
       CreateAccessPoint n0 opts, ReleaseGid (FileSystemId o0) gid])"
  by (simp add: createAccessPoint_def Let_def)

lemma createAccessPoint_created:
  "cloud_DescribeFileSystem w (FileSystemId o0) = None \<Longrightarrow>
   gidAllocator_getNextGid w (FileSystemId o0) lo hi = Inr gid \<Longrightarrow>
   opts = o0\<lparr>Gid := gid, Uid := gid,
            DirectoryPath := bp @ ''/'' @ RootDirPrefix @ ''-'' @ Itoa gid @ ''-'' @ uuid_New w\<rparr> \<Longrightarrow>
   cloud_CreateAccessPoint w n0 opts = Inr ap \<Longrightarrow>
   createAccessPoint w n0 sz o0 lo hi bp =
     (Inr \<lparr>Volume = \<lparr>CapacityBytes = sz,
                      VolumeId = FileSystemId o0 @ ''::'' @ AccessPointId ap,
                      VolumeContext = Map.empty\<rparr>\<rparr>,
      [DescribeFileSystem (FileSystemId o0), GetNextGid (FileSystemId o0) lo hi, UuidNew,
       CreateAccessPoint n0 opts])"
  by (simp add: createAccessPoint_def Let_def)


lemma createAccessPoint_cases:
  assumes "createAccessPoint w n0 sz o0 lo hi bp = (res, calls)"
  shows "(\<exists>err. cloud_DescribeFileSystem w (FileSystemId o0) = Some err
            \<and> calls = [DescribeFileSystem (FileSystemId o0)]
            \<and> codeOf res = Some (if err = ErrAccessDenied then Unauthenticated
                                 else if err = ErrNotFound then InvalidArgument else Internal))
       \<or> (\<exists>e. cloud_DescribeFileSystem w (FileSystemId o0) = None
            \<and> gidAllocator_getNextGid w (FileSystemId o0) lo hi = Inl e
            \<and> res = Inl e
            \<and> calls = [DescribeFileSystem (FileSystemId o0), GetNextGid (FileSystemId o0) lo hi])
       \<or> (\<exists>gid opts err. cloud_DescribeFileSystem w (FileSystemId o0) = None
            \<and> gidAllocator_getNextGid w (FileSystemId o0) lo hi = Inr gid
            \<and> opts = o0\<lparr>Gid := gid, Uid := gid,
                 DirectoryPath := bp @ ''/'' @ RootDirPrefix @ ''-'' @ Itoa gid @ ''-'' @ uuid_New w\<rparr>
            \<and> cloud_CreateAccessPoint w n0 opts = Inl err
            \<and> calls = [DescribeFileSystem (FileSystemId o0), GetNextGid (FileSystemId o0) lo hi,
                        UuidNew, CreateAccessPoint n0 opts, ReleaseGid (FileSystemId o0) gid]
            \<and> codeOf res = Some (if err = ErrAccessDenied then Unauthenticated
                                 else if err = ErrAlreadyExists then AlreadyExists else Internal))
       \<or> (\<exists>gid opts ap. cloud_DescribeFileSystem w (FileSystemId o0) = None
            \<and> gidAllocator_getNextGid w (FileSystemId o0) lo hi = Inr gid
            \<and> opts = o0\<lparr>Gid := gid, Uid := gid,
                 DirectoryPath := bp @ ''/'' @ RootDirPrefix @ ''-'' @ Itoa gid @ ''-'' @ uuid_New w\<rparr>
            \<and> cloud_CreateAccessPoint w n0 opts = Inr ap
            \<and> calls = [DescribeFileSystem (FileSystemId o0), GetNextGid (FileSystemId o0) lo hi,
                        UuidNew, CreateAccessPoint n0 opts]
            \<and> res = Inr \<lparr>Volume = \<lparr>CapacityBytes = sz,
                           VolumeId = FileSystemId o0 @ ''::'' @ AccessPointId ap,
                           VolumeContext = Map.empty\<rparr>\<rparr>)"
proof (cases "cloud_DescribeFileSystem w (FileSystemId o0)")
  case (Some err)
  from createAccessPoint_describe_fails [OF Some, of n0 sz lo hi bp] assms Some
  show ?thesis by (auto simp: codeOf_def)
next
  case None
  show ?thesis
  proof (cases "gidAllocator_getNextGid w (FileSystemId o0) lo hi")
    case (Inl e)
    from createAccessPoint_exhausted [OF None Inl, of n0 sz bp] assms None Inl
    show ?thesis by simp
  next
    case (Inr gid)
    let ?opts = "o0\<lparr>Gid := gid, Uid := gid,
      DirectoryPath := bp @ ''/'' @ RootDirPrefix @ ''-'' @ Itoa gid @ ''-'' @ uuid_New w\<rparr>"
    show ?thesis
    proof (cases "cloud_CreateAccessPoint w n0 ?opts")
      case failed: (Inl err)
      from createAccessPoint_create_fails [OF None Inr refl failed, of sz] assms
      have "calls = [DescribeFileSystem (FileSystemId o0), GetNextGid (FileSystemId o0) lo hi,
                     UuidNew, CreateAccessPoint n0 ?opts, ReleaseGid (FileSystemId o0) gid]"
        and "codeOf res = Some (if err = ErrAccessDenied then Unauthenticated
                                else if err = ErrAlreadyExists then AlreadyExists else Internal)"
        by (auto simp: codeOf_def)
      with None Inr failed show ?thesis by blast
    next
      case created: (Inr ap)
      from createAccessPoint_created [OF None Inr refl created, of sz] assms
      have "calls = [DescribeFileSystem (FileSystemId o0), GetNextGid (FileSystemId o0) lo hi,
                     UuidNew, CreateAccessPoint n0 ?opts]"
        and "res = Inr \<lparr>Volume = \<lparr>CapacityBytes = sz,
                           VolumeId = FileSystemId o0 @ ''::'' @ AccessPointId ap,
                           VolumeContext = Map.empty\<rparr>\<rparr>"
        by auto
      with None Inr created show ?thesis by blast
    qed
  qed
qed


lemma CreateVolume_execution [consumes 1, case_names rejected describe_failed exhausted create_failed created]:
  assumes run: "CreateVolume p d w req = (res, calls)"
  obtains
    (rejected) "codeOf res = Some InvalidArgument" "calls = []"
  | (describe_failed) fs lo hi err where
      "Parameters req FsId = Some fs" "\<not> isBlank fs" "gidRange (Parameters req) = Inr (lo, hi)"
      "cloud_DescribeFileSystem w fs = Some err"
      "calls = [DescribeFileSystem fs]"
      "codeOf res = Some (if err = ErrAccessDenied then Unauthenticated
                          else if err = ErrNotFound then InvalidArgument else Internal)"
  | (exhausted) fs lo hi e where
      "Parameters req FsId = Some fs" "\<not> isBlank fs" "gidRange (Parameters req) = Inr (lo, hi)"
      "cloud_DescribeFileSystem w fs = None"
      "gidAllocator_getNextGid w fs lo hi = Inl e"
      "calls = [DescribeFileSystem fs, GetNextGid fs lo hi]"
      "res = Inl e"
  | (create_failed) fs lo hi gid opts err where
      "Parameters req FsId = Some fs" "\<not> isBlank fs" "gidRange (Parameters req) = Inr (lo, hi)"
      "cloud_DescribeFileSystem w fs = None"
      "gidAllocator_getNextGid w fs lo hi = Inr gid"
      "FileSystemId opts = fs" "Gid opts = gid" "Uid opts = gid"
      "DirectoryPath opts =
         (case Parameters req BasePath of Some b \<Rightarrow> b | None \<Rightarrow> [])
           @ ''/'' @ RootDirPrefix @ ''-'' @ Itoa gid @ ''-'' @ uuid_New w"
      "cloud_CreateAccessPoint w (Name req) opts = Inl err"
      "calls = [DescribeFileSystem fs, GetNextGid fs lo hi, UuidNew,
                CreateAccessPoint (Name req) opts, ReleaseGid fs gid]"
      "codeOf res = Some (if err = ErrAccessDenied then Unauthenticated
                          else if err = ErrAlreadyExists then AlreadyExists else Internal)"
  | (created) fs lo hi gid opts ap where
      "Parameters req FsId = Some fs" "\<not> isBlank fs" "gidRange (Parameters req) = Inr (lo, hi)"
      "cloud_DescribeFileSystem w fs = None"
      "gidAllocator_getNextGid w fs lo hi = Inr gid"
      "FileSystemId opts = fs" "Gid opts = gid" "Uid opts = gid"
      "DirectoryPath opts =
         (case Parameters req BasePath of Some b \<Rightarrow> b | None \<Rightarrow> [])
           @ ''/'' @ RootDirPrefix @ ''-'' @ Itoa gid @ ''-'' @ uuid_New w"
      "cloud_CreateAccessPoint w (Name req) opts = Inr ap"
      "calls = [DescribeFileSystem fs, GetNextGid fs lo hi, UuidNew,
                CreateAccessPoint (Name req) opts]"
      "res = Inr \<lparr>Volume = \<lparr>CapacityBytes = GetRequiredBytes (CapacityRange req),
                      VolumeId = fs @ ''::'' @ AccessPointId ap,
                      VolumeContext = Map.empty\<rparr>\<rparr>"
proof -
  from CreateVolume_cases [of p d w req]
  consider "codeOf res = Some InvalidArgument" "calls = []"
    | fs lo hi opts0 where
        "Parameters req FsId = Some fs" "\<not> isBlank fs"
        "gidRange (Parameters req) = Inr (lo, hi)" "FileSystemId opts0 = fs"
        "createAccessPoint w (Name req) (GetRequiredBytes (CapacityRange req)) opts0 lo hi
           (case Parameters req BasePath of Some b \<Rightarrow> b | None \<Rightarrow> []) = (res, calls)"
    using run by auto
  then show thesis
  proof cases
    case 1
    then show thesis by (rule rejected)
  next
    case 2
    note v = 2(1-3)
    from createAccessPoint_cases [OF 2(5)] show thesis
    proof (elim disjE exE conjE)
      fix err
      assume "cloud_DescribeFileSystem w (FileSystemId opts0) = Some err"
        "calls = [DescribeFileSystem (FileSystemId opts0)]"
        "codeOf res = Some (if err = ErrAccessDenied then Unauthenticated
                            else if err = ErrNotFound then InvalidArgument else Internal)"
      then show thesis using v 2(4) by (intro describe_failed [of fs lo hi err]) simp_all
    next
      fix e
      assume "cloud_DescribeFileSystem w (FileSystemId opts0) = None"
        "gidAllocator_getNextGid w (FileSystemId opts0) lo hi = Inl e"
        "res = Inl e"
        "calls = [DescribeFileSystem (FileSystemId opts0), GetNextGid (FileSystemId opts0) lo hi]"
      then show thesis using v 2(4) by (intro exhausted [of fs lo hi e]) simp_all
    next
      fix gid opts err
      assume "cloud_DescribeFileSystem w (FileSystemId opts0) = None"
        "gidAllocator_getNextGid w (FileSystemId opts0) lo hi = Inr gid"
        "opts = opts0\<lparr>Gid := gid, Uid := gid,
           DirectoryPath := (case Parameters req BasePath of Some b \<Rightarrow> b | None \<Rightarrow> [])
             @ ''/'' @ RootDirPrefix @ ''-'' @ Itoa gid @ ''-'' @ uuid_New w\<rparr>"
        "cloud_CreateAccessPoint w (Name req) opts = Inl err"
        "calls = [DescribeFileSystem (FileSystemId opts0), GetNextGid (FileSystemId opts0) lo hi,
                  UuidNew, CreateAccessPoint (Name req) opts, ReleaseGid (FileSystemId opts0) gid]"
        "codeOf res = Some (if err = ErrAccessDenied then Unauthenticated
                            else if err = ErrAlreadyExists then AlreadyExists else Internal)"
      then show thesis using v 2(4)
        by (intro create_failed [of fs lo hi gid opts err]) simp_all
    next
      fix gid opts ap
      assume "cloud_DescribeFileSystem w (FileSystemId opts0) = None"
        "gidAllocator_getNextGid w (FileSystemId opts0) lo hi = Inr gid"
        "opts = opts0\<lparr>Gid := gid, Uid := gid,
           DirectoryPath := (case Parameters req BasePath of Some b \<Rightarrow> b | None \<Rightarrow> [])
             @ ''/'' @ RootDirPrefix @ ''-'' @ Itoa gid @ ''-'' @ uuid_New w\<rparr>"
        "cloud_CreateAccessPoint w (Name req) opts = Inr ap"
        "calls = [DescribeFileSystem (FileSystemId opts0), GetNextGid (FileSystemId opts0) lo hi,
                  UuidNew, CreateAccessPoint (Name req) opts]"
        "res = Inr \<lparr>Volume = \<lparr>CapacityBytes = GetRequiredBytes (CapacityRange req),
                      VolumeId = FileSystemId opts0 @ ''::'' @ AccessPointId ap,
                      VolumeContext = Map.empty\<rparr>\<rparr>"
      then show thesis using v 2(4)
        by (intro created [of fs lo hi gid opts ap]) simp_all
    qed
  qed
qed


subsection \<open>Evaluating the examples\<close>

lemma isBlank_Nil: "isBlank []"
  by (simp add: isBlank_def)

lemma Itoa_50000: "Itoa 50000 = ''50000''"
  by (simp add: Itoa_def natDigits.simps digitChar_def)

lemma Itoa_1000: "Itoa 1000 = ''1000''"
  by (simp add: Itoa_def natDigits.simps digitChar_def)

lemma Atoi_examples: "Atoi ''1000'' = Some 1000" "Atoi ''2000'' = Some 2000"
  by (simp_all add: Atoi_def digitVal_def)

lemma example_valid:
  "isValidVolumeCapabilities examplePackage [\<lparr>AccessMode = MULTI_NODE_MULTI_WRITER\<rparr>]"
  "\<not> isBlank ''fs-1''"
  by (simp_all add: isValidVolumeCapabilities_def examplePackage_def isBlank_def)

lemma example_gidRange:
  "gidRange (Parameters exampleRequest) = Inr (50000, 7000000)"
  "gidRange (Parameters rangeRequest) = Inr (1000, 2000)"
  by (simp_all add: gidRange_def exampleRequest_def rangeRequest_def consts_defs Atoi_examples)

lemma example_options:
  "CreateVolume examplePackage exampleDriver w exampleRequest =
     createAccessPoint w ''v1'' 1073741824
       \<lparr>CapacityGiB = 1073741824, Tags = [''efs.csi.aws.com/cluster'' \<mapsto> ''true''],
        FileSystemId = ''fs-1'', DirectoryPerms_opt = [], Gid = 0, Uid = 0, DirectoryPath = []\<rparr>
       50000 7000000 []"
  using CreateVolume_valid [of exampleRequest examplePackage "''fs-1''" 50000 7000000
      exampleDriver w] example_valid example_gidRange
  by (simp add: exampleRequest_def exampleDriver_def createTags_def GetRequiredBytes_def
      consts_defs)

lemma example_run:
  "CreateVolume examplePackage exampleDriver exampleCollaborators exampleRequest =
     (Inr \<lparr>Volume = \<lparr>CapacityBytes = 1073741824, VolumeId = ''fs-1::ap-1'',
                      VolumeContext = Map.empty\<rparr>\<rparr>,
      [DescribeFileSystem ''fs-1'', GetNextGid ''fs-1'' 50000 7000000, UuidNew,
       CreateAccessPoint ''v1''
         \<lparr>CapacityGiB = 1073741824, Tags = [''efs.csi.aws.com/cluster'' \<mapsto> ''true''],
          FileSystemId = ''fs-1'', DirectoryPerms_opt = [], Gid = 50000, Uid = 50000,
          DirectoryPath = ''/efs-csi-ap-50000-u1''\<rparr>])"
  unfolding example_options
  by (simp add: createAccessPoint_def exampleCollaborators_def Itoa_50000 RootDirPrefix_def
      Let_def)

lemma refused_run:
  "CreateVolume examplePackage exampleDriver refusingCollaborators exampleRequest =
     (Inl (Status AlreadyExists ''Access Point already exists'' []),
      [DescribeFileSystem ''fs-1'', GetNextGid ''fs-1'' 50000 7000000, UuidNew,
       CreateAccessPoint ''v1''
         \<lparr>CapacityGiB = 1073741824, Tags = [''efs.csi.aws.com/cluster'' \<mapsto> ''true''],
          FileSystemId = ''fs-1'', DirectoryPerms_opt = [], Gid = 50000, Uid = 50000,
          DirectoryPath = ''/efs-csi-ap-50000-u1''\<rparr>,
       ReleaseGid ''fs-1'' 50000])"
  unfolding example_options
  by (simp add: createAccessPoint_def refusingCollaborators_def exampleCollaborators_def
      Itoa_50000 RootDirPrefix_def Let_def)

lemma range_run:
  "CreateVolume examplePackage exampleDriver exampleCollaborators rangeRequest =
     (Inr \<lparr>Volume = \<lparr>CapacityBytes = 1073741824, VolumeId = ''fs-1::ap-1'',
                      VolumeContext = Map.empty\<rparr>\<rparr>,
      [DescribeFileSystem ''fs-1'', GetNextGid ''fs-1'' 1000 2000, UuidNew,
       CreateAccessPoint ''v1''
         \<lparr>CapacityGiB = 1073741824, Tags = [''efs.csi.aws.com/cluster'' \<mapsto> ''true''],
          FileSystemId = ''fs-1'', DirectoryPerms_opt = [], Gid = 1000, Uid = 1000,
          DirectoryPath = ''/vols/efs-csi-ap-1000-u1''\<rparr>])"
proof -
  have "CreateVolume examplePackage exampleDriver exampleCollaborators rangeRequest =
     createAccessPoint exampleCollaborators ''v1'' 1073741824
       \<lparr>CapacityGiB = 1073741824, Tags = [''efs.csi.aws.com/cluster'' \<mapsto> ''true''],
        FileSystemId = ''fs-1'', DirectoryPerms_opt = [], Gid = 0, Uid = 0, DirectoryPath = []\<rparr>
       1000 2000 ''/vols''"
    using CreateVolume_valid [of rangeRequest examplePackage "''fs-1''" 1000 2000
        exampleDriver exampleCollaborators] example_valid example_gidRange
    by (simp add: rangeRequest_def exampleRequest_def exampleDriver_def createTags_def
        GetRequiredBytes_def consts_defs)
  then show ?thesis
    by (simp add: createAccessPoint_def exampleCollaborators_def Itoa_1000 RootDirPrefix_def
        Let_def)
qed

lemma half_range_run:
  "CreateVolume examplePackage exampleDriver exampleCollaborators halfRangeRequest =
     (Inl (Status InvalidArgument ''Missing %v parameter'' [ArgStr ''gidRangeStart'']), [])"
proof -
  have "gidRange (Parameters halfRangeRequest)
          = Inl (Status InvalidArgument ''Missing %v parameter'' [ArgStr ''gidRangeStart''])"
    by (simp add: gidRange_def halfRangeRequest_def consts_defs)
  from CreateVolume_bad_gid [of halfRangeRequest examplePackage "''fs-1''" _
      exampleDriver exampleCollaborators, OF _ _ _ _ _ _ this] example_valid
  show ?thesis
    by (simp add: halfRangeRequest_def exampleRequest_def consts_defs)
qed


subsection \<open>The decimal rendering\<close>

text \<open>
  \<open>Itoa\<close> and \<open>Atoi\<close> agree: the rendering of an \<^verbatim>\<open>int\<close> parses back to it.
\<close>

lemma digit_cases: "(n::nat) < 10 \<Longrightarrow> n \<in> {0, 1, 2, 3, 4, 5, 6, 7, 8, 9}"
  by auto

lemma digitVal_digitChar: "n < 10 \<Longrightarrow> digitVal (digitChar n) = Some (int n)"
  by (drule digit_cases) (auto simp: digitVal_def digitChar_def)

lemma digitChar_no_sign: "n < 10 \<Longrightarrow> digitChar n \<noteq> CHR ''-'' \<and> digitChar n \<noteq> CHR ''+''"
  by (drule digit_cases) (auto simp: digitChar_def)

lemma parseDigits_append:
  "parseDigits (xs @ ys) acc
     = (case parseDigits xs acc of None \<Rightarrow> None | Some a \<Rightarrow> parseDigits ys a)"
  by (induction xs arbitrary: acc) (auto split: option.splits)

lemma parseDigits_natDigits: "parseDigits (natDigits n) acc = Some (acc * 10 ^ length (natDigits n) + int n)"
proof (induction n arbitrary: acc rule: natDigits.induct)
  case (1 n)
  show ?case
  proof (cases "n < 10")
    case True
    then show ?thesis by (simp add: natDigits.simps [of n] digitVal_digitChar)
  next
    case False
    have "n = (n div 10) * 10 + n mod 10" by simp
    then have "int n = int (n div 10) * 10 + int (n mod 10)"
      by (metis of_nat_add of_nat_mult of_nat_numeral)
    with False "1.IH" [OF False] show ?thesis
      by (simp add: natDigits.simps [of n] parseDigits_append digitVal_digitChar algebra_simps)
  qed
qed

lemma natDigits_head: "\<exists>c cs. natDigits n = c # cs \<and> c \<noteq> CHR ''-'' \<and> c \<noteq> CHR ''+''"
proof (induction n rule: natDigits.induct)
  case (1 n)
  show ?case
  proof (cases "n < 10")
    case True
    then show ?thesis using digitChar_no_sign [of n] by (simp add: natDigits.simps [of n])
  next
    case False
    with "1.IH" show ?thesis by (auto simp: natDigits.simps [of n])
  qed
qed

lemma Atoi_Itoa:
  assumes "- (2 ^ 63) \<le> i" and "i < 2 ^ 63"
  shows "Atoi (Itoa i) = Some i"
proof (cases "i < 0")
  case True
  obtain c cs where "natDigits (nat (- i)) = c # cs" using natDigits_head by blast
  then have ne: "natDigits (nat (- i)) \<noteq> []" by simp
  from True assms ne show ?thesis
    by (simp add: Atoi_def Itoa_def parseDigits_natDigits)
next
  case False
  obtain c cs where h: "natDigits (nat i) = c # cs" "c \<noteq> CHR ''-''" "c \<noteq> CHR ''+''"
    using natDigits_head by blast
  have "parseDigits (c # cs) 0 = Some i"
    using parseDigits_natDigits [of "nat i" 0] False unfolding h(1) by simp
  with False assms h show ?thesis
    by (simp add: Atoi_def Itoa_def del: parseDigits.simps)
qed

subsection \<open>The identifier codec\<close>

lemma splitOn_no_delimiter: "d \<notin> set a \<Longrightarrow> splitOn d a = [a]"
  by (induction a) auto

lemma splitOn_append: "d \<notin> set a \<Longrightarrow> splitOn d (a @ d # rest) = a # splitOn d rest"
  by (induction a) auto

lemma decode_encode:
  assumes "fs \<noteq> []" "ap \<noteq> []" "CHR '':'' \<notin> set fs" "CHR '':'' \<notin> set ap"
  shows "decode (fs @ CHR '':'' # CHR '':'' # ap) = Inr (fs, [], ap)"
proof -
  have "splitOn CHR '':'' (fs @ CHR '':'' # (CHR '':'' # ap))
          = fs # splitOn CHR '':'' (CHR '':'' # ap)"
    using assms(3) by (rule splitOn_append)
  also have "splitOn CHR '':'' (CHR '':'' # ap) = [] # splitOn CHR '':'' ap"
    by simp
  also have "splitOn CHR '':'' ap = [ap]" using assms(4) by (rule splitOn_no_delimiter)
  finally have "splitOn CHR '':'' (fs @ CHR '':'' # CHR '':'' # ap) = [fs, [], ap]" .
  with assms(1,2) show ?thesis by (simp add: decode_def)
qed

lemma decode_examples:
  "decode [] = Inl InvalidFormat"
  "decode ''bogus'' = Inl InvalidFormat"
  "decode ''fs-1::ap-1'' = Inr (''fs-1'', [], ''ap-1'')"
  by (simp_all add: decode_def)

lemma isValidVolumeCapabilities_iff:
  "isValidVolumeCapabilities p volCaps
     = (\<forall>c \<in> set volCaps. AccessMode c \<in> set (volumeCapAccessModes p))"
  by (simp add: isValidVolumeCapabilities_def list_all_iff)

section \<open>CreateVolume\<close>

text \<open>
  C7. CreateVolume validates its request in a fixed order: the name is not empty; then
  at least one access mode is requested and all requested modes are supported; then the
  parameter \<^verbatim>\<open>provisioningMode\<close> is present and equal to \<^verbatim>\<open>efs-ap\<close>; then the
  parameter \<^verbatim>\<open>fileSystemId\<close> is present and not blank. The first check that fails
  decides the result, whatever the rest of the request is: the error is InvalidArgument
  with the message of that check, and no collaborator is called.
\<close>

theorem CreateVolume_validation_order:
  "(Name req = [] \<longrightarrow>
      CreateVolume p d w req =
        (Inl (Status InvalidArgument ''Volume name not provided'' []), []))
   \<and> (Name req \<noteq> [] \<and> VolumeCapabilities req = [] \<longrightarrow>
      CreateVolume p d w req =
        (Inl (Status InvalidArgument ''Volume capabilities not provided'' []), []))
   \<and> (Name req \<noteq> [] \<and> VolumeCapabilities req \<noteq> []
        \<and> \<not> isValidVolumeCapabilities p (VolumeCapabilities req) \<longrightarrow>
      CreateVolume p d w req =
        (Inl (Status InvalidArgument ''Volume capabilities not supported'' []), []))
   \<and> (Name req \<noteq> [] \<and> VolumeCapabilities req \<noteq> []
        \<and> isValidVolumeCapabilities p (VolumeCapabilities req)
        \<and> Parameters req ''provisioningMode'' = None \<longrightarrow>
      CreateVolume p d w req =
        (Inl (Status InvalidArgument ''Missing %v parameter'' [ArgStr ''provisioningMode'']),
         []))
   \<and> (Name req \<noteq> [] \<and> VolumeCapabilities req \<noteq> []
        \<and> isValidVolumeCapabilities p (VolumeCapabilities req)
        \<and> Parameters req ''provisioningMode'' = Some m \<and> m \<noteq> ''efs-ap'' \<longrightarrow>
      CreateVolume p d w req =
        (Inl (Status InvalidArgument
           (''Provisioning mode '' @ m
              @ '' is not supported. Only Access point provisioning: 'efs-ap' is supported'')
           []), []))
   \<and> (Name req \<noteq> [] \<and> VolumeCapabilities req \<noteq> []
        \<and> isValidVolumeCapabilities p (VolumeCapabilities req)
        \<and> Parameters req ''provisioningMode'' = Some ''efs-ap''
        \<and> Parameters req ''fileSystemId'' = None \<longrightarrow>
      CreateVolume p d w req =
        (Inl (Status InvalidArgument ''Missing %v parameter'' [ArgStr ''fileSystemId'']), []))
   \<and> (Name req \<noteq> [] \<and> VolumeCapabilities req \<noteq> []
        \<and> isValidVolumeCapabilities p (VolumeCapabilities req)
        \<and> Parameters req ''provisioningMode'' = Some ''efs-ap''
        \<and> Parameters req ''fileSystemId'' = Some v \<and> isBlank v \<longrightarrow>
      CreateVolume p d w req =
        (Inl (Status InvalidArgument ''Parameter %v cannot be empty''
                [ArgStr ''fileSystemId'']), []))"
  using CreateVolume_no_name [of req p d w] CreateVolume_no_caps [of req p d w]
    CreateVolume_bad_caps [of req p d w] CreateVolume_no_mode [of req p d w]
    CreateVolume_bad_mode [of req p m d w] CreateVolume_no_fs [of req p d w]
    CreateVolume_blank_fs [of req p v d w]
  unfolding consts_defs by blast

text \<open>
  Three requests that fail at different checks: one with no name and, besides, no
  capability and no parameter; one with the provisioning mode \<^verbatim>\<open>efs-fs\<close> and no file
  system; one with a file system identifier of two spaces.
\<close>

theorem CreateVolume_validation_order_witness:
  "CreateVolume examplePackage exampleDriver exampleCollaborators
      \<lparr>Name = [], CapacityRange = None, VolumeCapabilities = [], Parameters = Map.empty\<rparr>
     = (Inl (Status InvalidArgument ''Volume name not provided'' []), [])
   \<and> CreateVolume examplePackage exampleDriver exampleCollaborators
      (exampleRequest\<lparr>Parameters := [''provisioningMode'' \<mapsto> ''efs-fs'']\<rparr>)
     = (Inl (Status InvalidArgument
          (''Provisioning mode '' @ ''efs-fs''
             @ '' is not supported. Only Access point provisioning: 'efs-ap' is supported'')
          []), [])
   \<and> CreateVolume examplePackage exampleDriver exampleCollaborators
      (exampleRequest
         \<lparr>Parameters := [''provisioningMode'' \<mapsto> ''efs-ap'', ''fileSystemId'' \<mapsto> ''  '']\<rparr>)
     = (Inl (Status InvalidArgument ''Parameter %v cannot be empty''
               [ArgStr ''fileSystemId'']), [])"
proof (intro conjI)
  show "CreateVolume examplePackage exampleDriver exampleCollaborators
      \<lparr>Name = [], CapacityRange = None, VolumeCapabilities = [], Parameters = Map.empty\<rparr>
     = (Inl (Status InvalidArgument ''Volume name not provided'' []), [])"
    by (rule CreateVolume_validation_order [THEN conjunct1, THEN mp]) simp
next
  show "CreateVolume examplePackage exampleDriver exampleCollaborators
      (exampleRequest\<lparr>Parameters := [''provisioningMode'' \<mapsto> ''efs-fs'']\<rparr>)
     = (Inl (Status InvalidArgument
          (''Provisioning mode '' @ ''efs-fs''
             @ '' is not supported. Only Access point provisioning: 'efs-ap' is supported'')
          []), [])"
    by (rule CreateVolume_validation_order [THEN conjunct2, THEN conjunct2, THEN conjunct2,
          THEN conjunct2, THEN conjunct1, THEN mp])
      (simp add: exampleRequest_def example_valid)
next
  show "CreateVolume examplePackage exampleDriver exampleCollaborators
      (exampleRequest
         \<lparr>Parameters := [''provisioningMode'' \<mapsto> ''efs-ap'', ''fileSystemId'' \<mapsto> ''  '']\<rparr>)
     = (Inl (Status InvalidArgument ''Parameter %v cannot be empty''
               [ArgStr ''fileSystemId'']), [])"
    by (rule CreateVolume_validation_order [where v = "''  ''", THEN conjunct2,
          THEN conjunct2, THEN conjunct2, THEN conjunct2, THEN conjunct2, THEN conjunct2,
          THEN mp])
      (simp add: exampleRequest_def example_valid isBlank_def)
qed

text \<open>
  C2. The parameters \<^verbatim>\<open>gidRangeStart\<close> and \<^verbatim>\<open>gidRangeEnd\<close> are both present or both
  absent; when present, both parse as integers, the start is greater than zero and the
  end is greater than the start. Every violation is rejected with InvalidArgument,
  before any collaborator is called: one of the two is missing, one of the two does
  not parse, the start is not positive, the end is not greater than the start. When
  neither is present, the allocator is asked for a gid in the default range, 50000 to
  7000000; when both are present, in the range they give. The allocator is asked as soon
  as the file system has been described without error.
\<close>

theorem CreateVolume_gid_range:
  assumes "CreateVolume p d w req = (res, calls)"
  shows "(Parameters req ''gidRangeStart'' = None \<and> Parameters req ''gidRangeEnd'' = Some b \<longrightarrow>
            codeOf res = Some InvalidArgument \<and> calls = [])
       \<and> (Parameters req ''gidRangeStart'' = Some a \<and> Parameters req ''gidRangeEnd'' = None \<longrightarrow>
            codeOf res = Some InvalidArgument \<and> calls = [])
       \<and> (Parameters req ''gidRangeStart'' = Some a \<and> Atoi a = None \<longrightarrow>
            codeOf res = Some InvalidArgument \<and> calls = [])
       \<and> (Parameters req ''gidRangeStart'' = Some a \<and> Atoi a = Some lo \<and> lo \<le> 0 \<longrightarrow>
            codeOf res = Some InvalidArgument \<and> calls = [])
       \<and> (Parameters req ''gidRangeEnd'' = Some b \<and> Atoi b = None \<longrightarrow>
            codeOf res = Some InvalidArgument \<and> calls = [])
       \<and> (Parameters req ''gidRangeStart'' = Some a \<and> Parameters req ''gidRangeEnd'' = Some b
            \<and> Atoi a = Some lo \<and> Atoi b = Some hi \<and> hi \<le> lo \<longrightarrow>
            codeOf res = Some InvalidArgument \<and> calls = [])
       \<and> (Parameters req ''gidRangeStart'' = None \<and> Parameters req ''gidRangeEnd'' = None
            \<and> GetNextGid fs gidMin gidMax \<in> set calls \<longrightarrow>
            gidMin = 50000 \<and> gidMax = 7000000)
       \<and> (Parameters req ''gidRangeStart'' = Some a \<and> Parameters req ''gidRangeEnd'' = Some b
            \<and> GetNextGid fs gidMin gidMax \<in> set calls \<longrightarrow>
            Atoi a = Some gidMin \<and> Atoi b = Some gidMax)
       \<and> (DescribeFileSystem fs \<in> set calls \<and> cloud_DescribeFileSystem w fs = None \<longrightarrow>
            (\<exists>gidMin gidMax. GetNextGid fs gidMin gidMax \<in> set calls))"
  using assms
proof (cases rule: CreateVolume_execution)
  case rejected
  then show ?thesis by simp
next
  case (describe_failed fs' lo' hi' err)
  from gidRange_Inr [OF describe_failed(3)] describe_failed(4,5)
  show ?thesis unfolding consts_defs by auto
next
  case (exhausted fs' lo' hi' e)
  from gidRange_Inr [OF exhausted(3)] exhausted(6)
  show ?thesis unfolding consts_defs by auto
next
  case (create_failed fs' lo' hi' gid opts err)
  from gidRange_Inr [OF create_failed(3)] create_failed(11)
  show ?thesis unfolding consts_defs by auto
next
  case (created fs' lo' hi' gid opts ap)
  from gidRange_Inr [OF created(3)] created(11)
  show ?thesis unfolding consts_defs by auto
qed

text \<open>
  The example request has no range and is served from 50000 to 7000000; the request with
  the range 1000 to 2000 is served from it; the request with the end of a range only is
  rejected.
\<close>

theorem CreateVolume_gid_range_witness:
  "(Parameters exampleRequest ''gidRangeStart'' = None
      \<and> Parameters exampleRequest ''gidRangeEnd'' = None
      \<and> GetNextGid ''fs-1'' 50000 7000000
           \<in> set (snd (CreateVolume examplePackage exampleDriver exampleCollaborators
                         exampleRequest)))
   \<and> (Parameters rangeRequest ''gidRangeStart'' = Some ''1000''
      \<and> Parameters rangeRequest ''gidRangeEnd'' = Some ''2000''
      \<and> Atoi ''1000'' = Some 1000 \<and> Atoi ''2000'' = Some 2000
      \<and> GetNextGid ''fs-1'' 1000 2000
           \<in> set (snd (CreateVolume examplePackage exampleDriver exampleCollaborators
                         rangeRequest)))
   \<and> (Parameters halfRangeRequest ''gidRangeStart'' = None
      \<and> Parameters halfRangeRequest ''gidRangeEnd'' = Some ''2000''
      \<and> codeOf (fst (CreateVolume examplePackage exampleDriver exampleCollaborators
                       halfRangeRequest)) = Some InvalidArgument
      \<and> snd (CreateVolume examplePackage exampleDriver exampleCollaborators
                halfRangeRequest) = [])"
proof -
  have none: "Parameters exampleRequest ''gidRangeStart'' = None"
    "Parameters exampleRequest ''gidRangeEnd'' = None"
    by (simp_all add: exampleRequest_def)
  have "cloud_DescribeFileSystem exampleCollaborators ''fs-1'' = None"
    by (simp add: exampleCollaborators_def)
  then have described: "DescribeFileSystem ''fs-1''
      \<in> set (snd (CreateVolume examplePackage exampleDriver exampleCollaborators exampleRequest))
    \<and> cloud_DescribeFileSystem exampleCollaborators ''fs-1'' = None"
    by (simp add: example_run)
  from CreateVolume_gid_range [OF example_run, THEN conjunct2, THEN conjunct2,
      THEN conjunct2, THEN conjunct2, THEN conjunct2, THEN conjunct2, THEN conjunct2,
      THEN conjunct2, THEN mp, OF described [unfolded example_run snd_conv]]
  obtain gidMin gidMax where asked: "GetNextGid ''fs-1'' gidMin gidMax
      \<in> set (snd (CreateVolume examplePackage exampleDriver exampleCollaborators exampleRequest))"
    unfolding example_run snd_conv by blast
  with CreateVolume_gid_range [OF example_run, THEN conjunct2, THEN conjunct2,
      THEN conjunct2, THEN conjunct2, THEN conjunct2, THEN conjunct2, THEN conjunct1,
      THEN mp, of "''fs-1''" gidMin gidMax] none
  have "gidMin = 50000 \<and> gidMax = 7000000"
    unfolding example_run snd_conv by blast
  with asked have first: "GetNextGid ''fs-1'' 50000 7000000
      \<in> set (snd (CreateVolume examplePackage exampleDriver exampleCollaborators exampleRequest))"
    by simp
  have both: "Parameters rangeRequest ''gidRangeStart'' = Some ''1000''"
    "Parameters rangeRequest ''gidRangeEnd'' = Some ''2000''"
    by (simp_all add: rangeRequest_def)
  have second: "GetNextGid ''fs-1'' 1000 2000
      \<in> set (snd (CreateVolume examplePackage exampleDriver exampleCollaborators rangeRequest))"
    by (simp add: range_run)
  with CreateVolume_gid_range [OF range_run, THEN conjunct2, THEN conjunct2,
      THEN conjunct2, THEN conjunct2, THEN conjunct2, THEN conjunct2, THEN conjunct2,
      THEN conjunct1, THEN mp, of "''1000''" "''2000''" "''fs-1''" 1000 2000] both
  have parsed: "Atoi ''1000'' = Some 1000 \<and> Atoi ''2000'' = Some 2000"
    unfolding range_run snd_conv by blast
  have half: "Parameters halfRangeRequest ''gidRangeStart'' = None"
    "Parameters halfRangeRequest ''gidRangeEnd'' = Some ''2000''"
    by (simp_all add: halfRangeRequest_def)
  with CreateVolume_gid_range [OF half_range_run, THEN conjunct1, THEN mp, of "''2000''"]
  have third: "codeOf (fst (CreateVolume examplePackage exampleDriver exampleCollaborators
                       halfRangeRequest)) = Some InvalidArgument
      \<and> snd (CreateVolume examplePackage exampleDriver exampleCollaborators
                halfRangeRequest) = []"
    unfolding half_range_run fst_conv snd_conv by blast
  from none first both parsed second half third show ?thesis by blast
qed


text \<open>
  C3, as the code has it. When the request passes validation, the file system exists,
  the allocator yields a gid and the cloud creates the access point, that is, when the
  cloud is asked to create an access point and answers with one, the response carries
  the volume identifier \<^verbatim>\<open>fileSystemId + "::" + accessPointId\<close>, the capacity of the
  request and an empty volume context. The file system identifier is the one of the
  request. When the access point identifier is not empty and neither identifier
  contains the delimiter, this identifier decodes, by the codec of the specification, to
  the file system identifier, an empty subpath and the access point identifier.
\<close>

theorem CreateVolume_response:
  assumes "CreateVolume p d w req = (res, calls)"
    and "CreateAccessPoint n opts \<in> set calls"
    and "cloud_CreateAccessPoint w n opts = Inr ap"
  shows "Parameters req ''fileSystemId'' = Some (FileSystemId opts)
       \<and> res = Inr \<lparr>Volume =
                 \<lparr>CapacityBytes = GetRequiredBytes (CapacityRange req),
                  VolumeId = FileSystemId opts @ ''::'' @ AccessPointId ap,
                  VolumeContext = Map.empty\<rparr>\<rparr>
       \<and> (AccessPointId ap \<noteq> [] \<and> CHR '':'' \<notin> set (FileSystemId opts)
            \<and> CHR '':'' \<notin> set (AccessPointId ap) \<longrightarrow>
          decode (FileSystemId opts @ ''::'' @ AccessPointId ap)
            = Inr (FileSystemId opts, [], AccessPointId ap))"
  using assms(1)
proof (cases rule: CreateVolume_execution)
  case rejected
  with assms(2) show ?thesis by simp
next
  case (describe_failed fs lo hi err)
  with assms(2) show ?thesis by simp
next
  case (exhausted fs lo hi e)
  with assms(2) show ?thesis by simp
next
  case (create_failed fs lo hi gid opts' err)
  with assms(2,3) show ?thesis by auto
next
  case (created fs lo hi gid opts' ap')
  from created(11) assms(2) have eq: "n = Name req" "opts = opts'" by auto
  with created(10) assms(3) have ap: "ap' = ap" by simp
  from created(2) have "fs \<noteq> []" using isBlank_Nil by auto
  with created eq ap show ?thesis by (simp add: FsId_def decode_encode)
qed

text \<open>Scenario A of the specification: \<^verbatim>\<open>fs-1\<close> and \<^verbatim>\<open>ap-1\<close> give \<^verbatim>\<open>fs-1::ap-1\<close>.\<close>

theorem CreateVolume_response_witness:
  "CreateAccessPoint ''v1''
      \<lparr>CapacityGiB = 1073741824, Tags = [''efs.csi.aws.com/cluster'' \<mapsto> ''true''],
       FileSystemId = ''fs-1'', DirectoryPerms_opt = [], Gid = 50000, Uid = 50000,
       DirectoryPath = ''/efs-csi-ap-50000-u1''\<rparr>
     \<in> set (snd (CreateVolume examplePackage exampleDriver exampleCollaborators exampleRequest))
   \<and> cloud_CreateAccessPoint exampleCollaborators ''v1''
        \<lparr>CapacityGiB = 1073741824, Tags = [''efs.csi.aws.com/cluster'' \<mapsto> ''true''],
         FileSystemId = ''fs-1'', DirectoryPerms_opt = [], Gid = 50000, Uid = 50000,
         DirectoryPath = ''/efs-csi-ap-50000-u1''\<rparr>
       = Inr \<lparr>AccessPointId = ''ap-1'', AccessPointRootDir = ''/efs-csi-ap-50000-u1''\<rparr>
   \<and> fst (CreateVolume examplePackage exampleDriver exampleCollaborators exampleRequest)
       = Inr \<lparr>Volume = \<lparr>CapacityBytes = 1073741824, VolumeId = ''fs-1::ap-1'',
                        VolumeContext = Map.empty\<rparr>\<rparr>
   \<and> decode ''fs-1::ap-1'' = Inr (''fs-1'', [], ''ap-1'')"
proof -
  let ?opts = "\<lparr>CapacityGiB = 1073741824, Tags = [''efs.csi.aws.com/cluster'' \<mapsto> ''true''],
       FileSystemId = ''fs-1'', DirectoryPerms_opt = [], Gid = 50000, Uid = 50000,
       DirectoryPath = ''/efs-csi-ap-50000-u1''\<rparr>"
  let ?ap = "\<lparr>AccessPointId = ''ap-1'', AccessPointRootDir = ''/efs-csi-ap-50000-u1''\<rparr>"
  let ?calls = "[DescribeFileSystem ''fs-1'', GetNextGid ''fs-1'' 50000 7000000, UuidNew,
       CreateAccessPoint ''v1'' ?opts]"
  have asked: "CreateAccessPoint ''v1'' ?opts \<in> set ?calls" by simp
  have answer: "cloud_CreateAccessPoint exampleCollaborators ''v1'' ?opts = Inr ?ap"
    by (simp add: exampleCollaborators_def)
  from CreateVolume_response [OF example_run asked answer]
  have "decode ''fs-1::ap-1'' = Inr (''fs-1'', [], ''ap-1'')" by simp
  with asked answer show ?thesis by (simp add: example_run)
qed

text \<open>
  C3, as it was stated, for every request that passes validation: the file system
  identifier \<^verbatim>\<open>fs:1\<close> is not blank and passes; the volume is created with the
  identifier \<^verbatim>\<open>fs:1::ap-1\<close>, of four segments, which does not decode to the file
  system identifier, an empty subpath and the access point identifier.
\<close>

theorem CreateVolume_response_counterexample:
  "CreateVolume examplePackage exampleDriver exampleCollaborators colonRequest =
     (Inr \<lparr>Volume = \<lparr>CapacityBytes = 1073741824, VolumeId = ''fs:1'' @ ''::'' @ ''ap-1'',
                      VolumeContext = Map.empty\<rparr>\<rparr>,
      [DescribeFileSystem ''fs:1'', GetNextGid ''fs:1'' 50000 7000000, UuidNew,
       CreateAccessPoint ''v1''
         \<lparr>CapacityGiB = 1073741824, Tags = [''efs.csi.aws.com/cluster'' \<mapsto> ''true''],
          FileSystemId = ''fs:1'', DirectoryPerms_opt = [], Gid = 50000, Uid = 50000,
          DirectoryPath = ''/efs-csi-ap-50000-u1''\<rparr>])
   \<and> decode (''fs:1'' @ ''::'' @ ''ap-1'') = Inl InvalidFormat
   \<and> decode (''fs:1'' @ ''::'' @ ''ap-1'') \<noteq> Inr (''fs:1'', [], ''ap-1'')"
proof -
  have blank: "\<not> isBlank ''fs:1''"
    by (simp add: isBlank_def)
  have range: "gidRange (Parameters colonRequest) = Inr (50000, 7000000)"
    by (simp add: gidRange_def colonRequest_def consts_defs)
  have "CreateVolume examplePackage exampleDriver exampleCollaborators colonRequest =
     createAccessPoint exampleCollaborators ''v1'' 1073741824
       \<lparr>CapacityGiB = 1073741824, Tags = [''efs.csi.aws.com/cluster'' \<mapsto> ''true''],
        FileSystemId = ''fs:1'', DirectoryPerms_opt = [], Gid = 0, Uid = 0, DirectoryPath = []\<rparr>
       50000 7000000 []"
    using CreateVolume_valid [of colonRequest examplePackage "''fs:1''" 50000 7000000
        exampleDriver exampleCollaborators] example_valid(1) blank range
    by (simp add: colonRequest_def exampleRequest_def exampleDriver_def createTags_def
        GetRequiredBytes_def consts_defs)
  then have run: "CreateVolume examplePackage exampleDriver exampleCollaborators colonRequest =
     (Inr \<lparr>Volume = \<lparr>CapacityBytes = 1073741824, VolumeId = ''fs:1'' @ ''::'' @ ''ap-1'',
                      VolumeContext = Map.empty\<rparr>\<rparr>,
      [DescribeFileSystem ''fs:1'', GetNextGid ''fs:1'' 50000 7000000, UuidNew,
       CreateAccessPoint ''v1''
         \<lparr>CapacityGiB = 1073741824, Tags = [''efs.csi.aws.com/cluster'' \<mapsto> ''true''],
          FileSystemId = ''fs:1'', DirectoryPerms_opt = [], Gid = 50000, Uid = 50000,
          DirectoryPath = ''/efs-csi-ap-50000-u1''\<rparr>])"
    by (simp add: createAccessPoint_def exampleCollaborators_def Itoa_50000 RootDirPrefix_def
        Let_def)
  have "decode (''fs:1'' @ ''::'' @ ''ap-1'') = Inl InvalidFormat"
    by (simp add: decode_def)
  with run show ?thesis by simp
qed

text \<open>
  C4. When a gid has been allocated and the cloud then fails to create the access
  point, CreateVolume releases that gid on the same file system, once and as its last
  call, and returns Unauthenticated for an access-denied error, AlreadyExists for an
  already-exists error and Internal for any other. The calls of the execution are
  exactly: describe the file system, allocate, generate the suffix, create the access
  point, release; the creation is not asked again.
\<close>

theorem CreateVolume_releases_gid:
  assumes "CreateVolume p d w req = (res, calls)"
    and "CreateAccessPoint n opts \<in> set calls"
    and "cloud_CreateAccessPoint w n opts = Inl err"
  shows "\<exists>gidMin gidMax.
           calls = [DescribeFileSystem (FileSystemId opts),
                    GetNextGid (FileSystemId opts) gidMin gidMax, UuidNew,
                    CreateAccessPoint n opts,
                    ReleaseGid (FileSystemId opts) (Gid opts)]
           \<and> gidAllocator_getNextGid w (FileSystemId opts) gidMin gidMax = Inr (Gid opts)
           \<and> codeOf res = Some (if err = ErrAccessDenied then Unauthenticated
                                else if err = ErrAlreadyExists then AlreadyExists
                                else Internal)"
  using assms(1)
proof (cases rule: CreateVolume_execution)
  case rejected
  with assms(2) show ?thesis by simp
next
  case (describe_failed fs lo hi err)
  with assms(2) show ?thesis by simp
next
  case (exhausted fs lo hi e)
  with assms(2) show ?thesis by simp
next
  case (create_failed fs lo hi gid opts' err')
  from create_failed(11) assms(2) have eq: "n = Name req" "opts = opts'" by auto
  with create_failed(10) assms(3) have "err' = err" by simp
  with create_failed eq show ?thesis by auto
next
  case (created fs lo hi gid opts' ap')
  with assms(2,3) show ?thesis by auto
qed

text \<open>The cloud answers that the access point exists already: the gid 50000 is released.\<close>

theorem CreateVolume_releases_gid_witness:
  "CreateVolume examplePackage exampleDriver refusingCollaborators exampleRequest
     = (Inl (Status AlreadyExists ''Access Point already exists'' []),
        [DescribeFileSystem ''fs-1'', GetNextGid ''fs-1'' 50000 7000000, UuidNew,
         CreateAccessPoint ''v1''
           \<lparr>CapacityGiB = 1073741824, Tags = [''efs.csi.aws.com/cluster'' \<mapsto> ''true''],
            FileSystemId = ''fs-1'', DirectoryPerms_opt = [], Gid = 50000, Uid = 50000,
            DirectoryPath = ''/efs-csi-ap-50000-u1''\<rparr>,
         ReleaseGid ''fs-1'' 50000])
   \<and> cloud_CreateAccessPoint refusingCollaborators ''v1''
        \<lparr>CapacityGiB = 1073741824, Tags = [''efs.csi.aws.com/cluster'' \<mapsto> ''true''],
         FileSystemId = ''fs-1'', DirectoryPerms_opt = [], Gid = 50000, Uid = 50000,
         DirectoryPath = ''/efs-csi-ap-50000-u1''\<rparr>
       = Inl ErrAlreadyExists
   \<and> gidAllocator_getNextGid refusingCollaborators ''fs-1'' 50000 7000000 = Inr 50000
   \<and> codeOf (fst (CreateVolume examplePackage exampleDriver refusingCollaborators
                    exampleRequest)) = Some AlreadyExists"
proof -
  let ?opts = "\<lparr>CapacityGiB = 1073741824, Tags = [''efs.csi.aws.com/cluster'' \<mapsto> ''true''],
       FileSystemId = ''fs-1'', DirectoryPerms_opt = [], Gid = 50000, Uid = 50000,
       DirectoryPath = ''/efs-csi-ap-50000-u1''\<rparr>"
  let ?calls = "[DescribeFileSystem ''fs-1'', GetNextGid ''fs-1'' 50000 7000000, UuidNew,
       CreateAccessPoint ''v1'' ?opts, ReleaseGid ''fs-1'' 50000]"
  have asked: "CreateAccessPoint ''v1'' ?opts \<in> set ?calls" by simp
  have answer: "cloud_CreateAccessPoint refusingCollaborators ''v1'' ?opts = Inl ErrAlreadyExists"
    by (simp add: refusingCollaborators_def)
  from CreateVolume_releases_gid [OF refused_run asked answer]
  have "gidAllocator_getNextGid refusingCollaborators ''fs-1'' 50000 7000000 = Inr 50000
      \<and> codeOf (Inl (Status AlreadyExists ''Access Point already exists'' [])
                  :: rpc_error + create_volume_response) = Some AlreadyExists"
    by simp
  with answer show ?thesis by (simp add: refused_run)
qed

text \<open>
  C8. In every successful CreateVolume, the root directory path given to the cloud is
  the base path, \<^verbatim>\<open>/\<close>, \<^verbatim>\<open>efs-csi-ap\<close>, \<^verbatim>\<open>-\<close>, the allocated gid in decimal,
  \<^verbatim>\<open>-\<close> and the suffix that the uuid generator returned to this call, generated once;
  the base path is empty when the parameter \<^verbatim>\<open>basePath\<close> is absent; the uid and the
  gid of the access point are both the allocated gid.
\<close>

theorem CreateVolume_root_directory:
  assumes "CreateVolume p d w req = (Inr resp, calls)"
  shows "\<exists>fs gidMin gidMax gid opts.
           calls = [DescribeFileSystem fs, GetNextGid fs gidMin gidMax, UuidNew,
                    CreateAccessPoint (Name req) opts]
           \<and> gidAllocator_getNextGid w fs gidMin gidMax = Inr gid
           \<and> DirectoryPath opts =
               (case Parameters req ''basePath'' of None \<Rightarrow> [] | Some basePath \<Rightarrow> basePath)
                 @ ''/'' @ ''efs-csi-ap'' @ ''-'' @ Itoa gid @ ''-'' @ uuid_New w
           \<and> Uid opts = gid \<and> Gid opts = gid"
  using assms
proof (cases rule: CreateVolume_execution)
  case (created fs lo hi gid opts ap)
  then show ?thesis unfolding BasePath_def RootDirPrefix_def by blast
qed (auto simp: codeOf_def split: if_splits)

text \<open>
  With no base path, the gid 50000 and the suffix \<^verbatim>\<open>u1\<close> the root directory is
  \<^verbatim>\<open>/efs-csi-ap-50000-u1\<close>; with the base path \<^verbatim>\<open>/vols\<close> and the gid 1000 it is
  \<^verbatim>\<open>/vols/efs-csi-ap-1000-u1\<close>.
\<close>

theorem CreateVolume_root_directory_witness:
  "(\<exists>resp. CreateVolume examplePackage exampleDriver exampleCollaborators rangeRequest
       = (Inr resp,
          [DescribeFileSystem ''fs-1'', GetNextGid ''fs-1'' 1000 2000, UuidNew,
           CreateAccessPoint ''v1''
             \<lparr>CapacityGiB = 1073741824, Tags = [''efs.csi.aws.com/cluster'' \<mapsto> ''true''],
              FileSystemId = ''fs-1'', DirectoryPerms_opt = [], Gid = 1000, Uid = 1000,
              DirectoryPath = ''/vols/efs-csi-ap-1000-u1''\<rparr>]))
   \<and> ''/vols/efs-csi-ap-1000-u1''
       = (case Parameters rangeRequest ''basePath'' of None \<Rightarrow> [] | Some basePath \<Rightarrow> basePath)
           @ ''/'' @ ''efs-csi-ap'' @ ''-'' @ Itoa 1000 @ ''-'' @ uuid_New exampleCollaborators"
proof -
  from CreateVolume_root_directory [OF range_run]
  have "''/vols/efs-csi-ap-1000-u1''
       = (case Parameters rangeRequest ''basePath'' of None \<Rightarrow> [] | Some basePath \<Rightarrow> basePath)
           @ ''/'' @ ''efs-csi-ap'' @ ''-'' @ Itoa 1000 @ ''-'' @ uuid_New exampleCollaborators"
    by auto
  then show ?thesis using range_run by blast
qed


section \<open>DeleteVolume\<close>

lemma removeRootDir_not_found:
  "cloud_DescribeAccessPoint w accessPointId = Inl ErrNotFound \<Longrightarrow>
   removeRootDir w fileSystemId accessPointId =
     (Some (Inr DeleteVolumeResponse), [DescribeAccessPoint accessPointId])"
  by (simp add: removeRootDir_def)

lemma removeRootDir_calls:
  "DeleteAccessPoint a \<notin> set (snd (removeRootDir w fileSystemId accessPointId))"
  by (simp add: removeRootDir_def Let_def split: sum.splits option.splits)

lemma deleteAccessPoint_not_found:
  "cloud_DeleteAccessPoint w accessPointId = Some ErrNotFound \<Longrightarrow>
   fst (deleteAccessPoint w volId accessPointId calls) = Inr DeleteVolumeResponse"
  by (simp add: deleteAccessPoint_def)

lemma DeleteVolume_delete_step:
  assumes "del_VolumeId req \<noteq> []"
    and "parseVolumeId p (del_VolumeId req) = Inr (fileSystemId, subpath, accessPointId)"
    and "accessPointId \<noteq> []"
    and "DeleteAccessPoint a \<in> set (snd (DeleteVolume p d w req))"
  shows "\<exists>calls. DeleteVolume p d w req
           = deleteAccessPoint w (del_VolumeId req) accessPointId calls"
proof (cases "deleteAccessPointRootDir d")
  case False
  with assms(1-3) show ?thesis by (auto simp: DeleteVolume_def)
next
  case True
  obtain early calls where r: "removeRootDir w fileSystemId accessPointId = (early, calls)"
    by (cases "removeRootDir w fileSystemId accessPointId")
  show ?thesis
  proof (cases early)
    case None
    with assms(1-3) True r show ?thesis by (auto simp: DeleteVolume_def)
  next
    case (Some res)
    with assms(1-3) True r have "snd (DeleteVolume p d w req) = calls"
      by (simp add: DeleteVolume_def)
    with assms(4) removeRootDir_calls [of a w fileSystemId accessPointId] r
    show ?thesis by simp
  qed
qed

lemma example_delete_answers:
  "cloud_DescribeAccessPoint goneCollaborators apId = Inl ErrNotFound"
  "cloud_DeleteAccessPoint goneCollaborators apId = Some ErrNotFound"
  by (simp_all add: goneCollaborators_def)

lemma example_parse:
  "parseVolumeId examplePackage [] = Inl InvalidFormat"
  "parseVolumeId examplePackage ''bogus'' = Inl InvalidFormat"
  "parseVolumeId examplePackage ''fs-1::ap-1'' = Inr (''fs-1'', [], ''ap-1'')"
  by (simp_all add: examplePackage_def decode_examples)

lemma gone_run:
  "DeleteVolume examplePackage exampleDriver goneCollaborators \<lparr>del_VolumeId = ''fs-1::ap-1''\<rparr>
     = (Inr DeleteVolumeResponse, [DeleteAccessPoint ''ap-1''])"
  by (simp add: DeleteVolume_def deleteAccessPoint_def example_parse example_delete_answers
      exampleDriver_def)

text \<open>
  C9. A request with an empty volume identifier is rejected with InvalidArgument before
  the identifier is decoded: the result is the same for every decoder, also for one
  that fails on the empty string, and no collaborator is called.
\<close>

theorem DeleteVolume_empty_id:
  "del_VolumeId req = [] \<Longrightarrow>
   DeleteVolume p d w req = (Inl (Status InvalidArgument ''Volume ID not provided'' []), [])"
  by (simp add: DeleteVolume_def)

theorem DeleteVolume_empty_id_witness:
  "del_VolumeId \<lparr>del_VolumeId = []\<rparr> = []
   \<and> DeleteVolume examplePackage cleanupDriver exampleCollaborators \<lparr>del_VolumeId = []\<rparr>
       = (Inl (Status InvalidArgument ''Volume ID not provided'' []), [])"
proof -
  have h: "del_VolumeId \<lparr>del_VolumeId = []\<rparr> = []" by simp
  from h DeleteVolume_empty_id [OF h, of examplePackage cleanupDriver exampleCollaborators]
  show ?thesis by simp
qed

text \<open>
  C5. With a decoder that rejects the empty identifier, as the codec of the
  specification does: for every request whose volume identifier decodes with an empty
  access point identifier, DeleteVolume returns NotFound, not success, and calls
  neither the cloud nor the mounter.
\<close>

theorem DeleteVolume_no_access_point:
  assumes "parseVolumeId p [] = Inl InvalidFormat"
    and "parseVolumeId p (del_VolumeId req) = Inr (fileSystemId, subpath, [])"
  shows "DeleteVolume p d w req =
           (Inl (Status NotFound ''Failed to find access point for volume: %v''
                   [ArgStr (del_VolumeId req)]), [])"
proof -
  from assms have "del_VolumeId req \<noteq> []" by auto
  with assms(2) show ?thesis by (simp add: DeleteVolume_def)
qed

text \<open>The identifier \<^verbatim>\<open>fs-1\<close> names a file system and no access point.\<close>

theorem DeleteVolume_no_access_point_witness:
  "parseVolumeId bareIdPackage [] = Inl InvalidFormat
   \<and> parseVolumeId bareIdPackage (del_VolumeId \<lparr>del_VolumeId = ''fs-1''\<rparr>)
       = Inr (''fs-1'', [], [])
   \<and> DeleteVolume bareIdPackage cleanupDriver exampleCollaborators \<lparr>del_VolumeId = ''fs-1''\<rparr>
       = (Inl (Status NotFound ''Failed to find access point for volume: %v''
                 [ArgStr ''fs-1'']), [])"
proof -
  have h1: "parseVolumeId bareIdPackage [] = Inl InvalidFormat"
    by (simp add: bareIdPackage_def)
  have h2: "parseVolumeId bareIdPackage (del_VolumeId \<lparr>del_VolumeId = ''fs-1''\<rparr>)
              = Inr (''fs-1'', [], [])"
    by (simp add: bareIdPackage_def)
  from h1 h2 DeleteVolume_no_access_point [OF h1 h2, of cleanupDriver exampleCollaborators]
  show ?thesis by simp
qed

text \<open>
  C1, as the code has it. For every request with a volume identifier that is not empty:
  if the identifier fails to decode, DeleteVolume returns success and calls no
  collaborator; if it decodes with an access point identifier that is not empty, and
  the cloud reports NotFound when the access point is described (the removal of the
  root directory being enabled) or when it is deleted, DeleteVolume returns success.
  The empty identifier is left out: it is rejected first, with InvalidArgument.
\<close>

theorem DeleteVolume_idempotent:
  assumes "del_VolumeId req \<noteq> []"
  shows "(parseVolumeId p (del_VolumeId req) = Inl e \<longrightarrow>
            DeleteVolume p d w req = (Inr DeleteVolumeResponse, []))
       \<and> (parseVolumeId p (del_VolumeId req) = Inr (fileSystemId, subpath, accessPointId)
            \<and> accessPointId \<noteq> [] \<and> deleteAccessPointRootDir d
            \<and> cloud_DescribeAccessPoint w accessPointId = Inl ErrNotFound \<longrightarrow>
            DeleteVolume p d w req
              = (Inr DeleteVolumeResponse, [DescribeAccessPoint accessPointId]))
       \<and> (parseVolumeId p (del_VolumeId req) = Inr (fileSystemId, subpath, accessPointId)
            \<and> accessPointId \<noteq> []
            \<and> DeleteAccessPoint accessPointId \<in> set (snd (DeleteVolume p d w req))
            \<and> cloud_DeleteAccessPoint w accessPointId = Some ErrNotFound \<longrightarrow>
            fst (DeleteVolume p d w req) = Inr DeleteVolumeResponse)"
proof (intro conjI impI)
  assume "parseVolumeId p (del_VolumeId req) = Inl e"
  with assms show "DeleteVolume p d w req = (Inr DeleteVolumeResponse, [])"
    by (simp add: DeleteVolume_def)
next
  assume "parseVolumeId p (del_VolumeId req) = Inr (fileSystemId, subpath, accessPointId)
    \<and> accessPointId \<noteq> [] \<and> deleteAccessPointRootDir d
    \<and> cloud_DescribeAccessPoint w accessPointId = Inl ErrNotFound"
  with assms show "DeleteVolume p d w req
      = (Inr DeleteVolumeResponse, [DescribeAccessPoint accessPointId])"
    by (simp add: DeleteVolume_def removeRootDir_not_found)
next
  assume h: "parseVolumeId p (del_VolumeId req) = Inr (fileSystemId, subpath, accessPointId)
    \<and> accessPointId \<noteq> []
    \<and> DeleteAccessPoint accessPointId \<in> set (snd (DeleteVolume p d w req))
    \<and> cloud_DeleteAccessPoint w accessPointId = Some ErrNotFound"
  with DeleteVolume_delete_step [OF assms, of p fileSystemId subpath accessPointId
      accessPointId d w]
  obtain calls where
    "DeleteVolume p d w req = deleteAccessPoint w (del_VolumeId req) accessPointId calls"
    by blast
  with h show "fst (DeleteVolume p d w req) = Inr DeleteVolumeResponse"
    by (simp add: deleteAccessPoint_not_found)
qed

text \<open>
  An identifier that does not decode; an access point that is gone when it is described;
  an access point that is gone when it is deleted.
\<close>

theorem DeleteVolume_idempotent_witness:
  "(del_VolumeId \<lparr>del_VolumeId = ''bogus''\<rparr> \<noteq> []
      \<and> parseVolumeId examplePackage (del_VolumeId \<lparr>del_VolumeId = ''bogus''\<rparr>)
          = Inl InvalidFormat
      \<and> DeleteVolume examplePackage exampleDriver exampleCollaborators
          \<lparr>del_VolumeId = ''bogus''\<rparr> = (Inr DeleteVolumeResponse, []))
   \<and> (parseVolumeId examplePackage (del_VolumeId \<lparr>del_VolumeId = ''fs-1::ap-1''\<rparr>)
          = Inr (''fs-1'', [], ''ap-1'')
      \<and> deleteAccessPointRootDir cleanupDriver
      \<and> cloud_DescribeAccessPoint goneCollaborators ''ap-1'' = Inl ErrNotFound
      \<and> DeleteVolume examplePackage cleanupDriver goneCollaborators
          \<lparr>del_VolumeId = ''fs-1::ap-1''\<rparr>
          = (Inr DeleteVolumeResponse, [DescribeAccessPoint ''ap-1'']))
   \<and> (DeleteAccessPoint ''ap-1''
          \<in> set (snd (DeleteVolume examplePackage exampleDriver goneCollaborators
                        \<lparr>del_VolumeId = ''fs-1::ap-1''\<rparr>))
      \<and> cloud_DeleteAccessPoint goneCollaborators ''ap-1'' = Some ErrNotFound
      \<and> fst (DeleteVolume examplePackage exampleDriver goneCollaborators
               \<lparr>del_VolumeId = ''fs-1::ap-1''\<rparr>) = Inr DeleteVolumeResponse)"
proof -
  have ne: "del_VolumeId \<lparr>del_VolumeId = ''bogus''\<rparr> \<noteq> []"
    "del_VolumeId \<lparr>del_VolumeId = ''fs-1::ap-1''\<rparr> \<noteq> []"
    by simp_all
  have bogus: "parseVolumeId examplePackage (del_VolumeId \<lparr>del_VolumeId = ''bogus''\<rparr>)
      = Inl InvalidFormat"
    by (simp add: example_parse)
  have parsed: "parseVolumeId examplePackage (del_VolumeId \<lparr>del_VolumeId = ''fs-1::ap-1''\<rparr>)
      = Inr (''fs-1'', [], ''ap-1'')"
    by (simp add: example_parse)
  have flag: "deleteAccessPointRootDir cleanupDriver"
    by (simp add: cleanupDriver_def)
  have asked: "DeleteAccessPoint ''ap-1''
      \<in> set (snd (DeleteVolume examplePackage exampleDriver goneCollaborators
                    \<lparr>del_VolumeId = ''fs-1::ap-1''\<rparr>))"
    by (simp add: gone_run)
  from DeleteVolume_idempotent [OF ne(1), THEN conjunct1, THEN mp, OF bogus]
  have first: "DeleteVolume examplePackage exampleDriver exampleCollaborators
      \<lparr>del_VolumeId = ''bogus''\<rparr> = (Inr DeleteVolumeResponse, [])" .
  from DeleteVolume_idempotent [OF ne(2), THEN conjunct2, THEN conjunct1, THEN mp,
      of examplePackage "''fs-1''" "[]" "''ap-1''" cleanupDriver goneCollaborators]
    parsed flag example_delete_answers(1)
  have second: "DeleteVolume examplePackage cleanupDriver goneCollaborators
      \<lparr>del_VolumeId = ''fs-1::ap-1''\<rparr>
      = (Inr DeleteVolumeResponse, [DescribeAccessPoint ''ap-1''])"
    by simp
  from DeleteVolume_idempotent [OF ne(2), THEN conjunct2, THEN conjunct2, THEN mp,
      of examplePackage "''fs-1''" "[]" "''ap-1''" exampleDriver goneCollaborators]
    parsed asked example_delete_answers(2)
  have third: "fst (DeleteVolume examplePackage exampleDriver goneCollaborators
      \<lparr>del_VolumeId = ''fs-1::ap-1''\<rparr>) = Inr DeleteVolumeResponse"
    by simp
  from ne bogus parsed flag asked first second third example_delete_answers
  show ?thesis by blast
qed

text \<open>
  C1, as it was stated, for every request whose identifier fails to decode: the empty
  identifier fails to decode, and DeleteVolume answers it with InvalidArgument, not
  with success.
\<close>

theorem DeleteVolume_idempotent_counterexample:
  "parseVolumeId examplePackage (del_VolumeId \<lparr>del_VolumeId = []\<rparr>) = Inl InvalidFormat
   \<and> fst (DeleteVolume examplePackage exampleDriver exampleCollaborators \<lparr>del_VolumeId = []\<rparr>)
       = Inl (Status InvalidArgument ''Volume ID not provided'' [])
   \<and> fst (DeleteVolume examplePackage exampleDriver exampleCollaborators \<lparr>del_VolumeId = []\<rparr>)
       \<noteq> Inr DeleteVolumeResponse"
  by (simp add: DeleteVolume_def example_parse)

text \<open>
  C6. The mount is not released on every path. When the file system has been mounted
  at the target and the removal of the access point's root directory fails,
  DeleteVolume returns Internal at once: its last call is the failed removal, and the
  target is neither unmounted nor removed. The path on which the mount itself fails
  does remove the target, and the path on which every step succeeds unmounts and
  removes it.
\<close>

theorem DeleteVolume_leaves_mount:
  "DeleteVolume examplePackage cleanupDriver stuckCollaborators \<lparr>del_VolumeId = ''fs-1::ap-1''\<rparr>
     = (Inl (Status Internal ''Could not delete access point root directory %q: %v''
               [ArgStr ''/efs-csi-ap-50000-u1'', ArgErr]),
        [DescribeAccessPoint ''ap-1'', MakeDir ''/var/lib/csi/pv/ap-1'',
         Mount ''fs-1'' ''/var/lib/csi/pv/ap-1'' ''efs'' [''tls''],
         OsRemoveAll ''/var/lib/csi/pv/ap-1/efs-csi-ap-50000-u1''])
   \<and> mounter_Mount stuckCollaborators ''fs-1'' ''/var/lib/csi/pv/ap-1'' ''efs'' [''tls''] = None
   \<and> DeleteVolume examplePackage cleanupDriver exampleCollaborators
        \<lparr>del_VolumeId = ''fs-1::ap-1''\<rparr>
     = (Inr DeleteVolumeResponse,
        [DescribeAccessPoint ''ap-1'', MakeDir ''/var/lib/csi/pv/ap-1'',
         Mount ''fs-1'' ''/var/lib/csi/pv/ap-1'' ''efs'' [''tls''],
         OsRemoveAll ''/var/lib/csi/pv/ap-1/efs-csi-ap-50000-u1'',
         Unmount ''/var/lib/csi/pv/ap-1'', OsRemoveAll ''/var/lib/csi/pv/ap-1'',
         DeleteAccessPoint ''ap-1''])"
  by (simp add: DeleteVolume_def removeRootDir_def deleteAccessPoint_def example_parse
      cleanupDriver_def stuckCollaborators_def exampleCollaborators_def
      TempMountPathPrefix_def Let_def)

section \<open>ValidateVolumeCapabilities\<close>

text \<open>
  C10. For every request with a volume identifier and a list of capabilities that are
  not empty: an identifier that fails to decode gives NotFound, where DeleteVolume
  returns success for the same identifier; an identifier that decodes gives a response,
  never an error, and the response is confirmed exactly when every requested access
  mode is supported.
\<close>

theorem ValidateVolumeCapabilities_results:
  assumes "val_VolumeId req \<noteq> []" and "val_VolumeCapabilities req \<noteq> []"
  shows "(parseVolumeId p (val_VolumeId req) = Inl e \<longrightarrow>
            ValidateVolumeCapabilities p req =
              Inl (Status NotFound ''Volume not found, err: %v'' [ArgErr])
            \<and> fst (DeleteVolume p d w \<lparr>del_VolumeId = val_VolumeId req\<rparr>)
                = Inr DeleteVolumeResponse)
       \<and> (parseVolumeId p (val_VolumeId req) = Inr parsed \<longrightarrow>
            (\<exists>resp. ValidateVolumeCapabilities p req = Inr resp
               \<and> ((Confirmed resp \<noteq> None)
                    = (\<forall>c \<in> set (val_VolumeCapabilities req).
                         AccessMode c \<in> set (volumeCapAccessModes p)))))"
  using assms
  by (simp add: ValidateVolumeCapabilities_def DeleteVolume_def Let_def
      isValidVolumeCapabilities_iff)

text \<open>
  An identifier that does not decode; a supported mode and an unsupported one on an
  identifier that decodes.
\<close>

theorem ValidateVolumeCapabilities_results_witness:
  "ValidateVolumeCapabilities examplePackage
      \<lparr>val_VolumeId = ''bogus'',
       val_VolumeCapabilities = [\<lparr>AccessMode = MULTI_NODE_MULTI_WRITER\<rparr>]\<rparr>
     = Inl (Status NotFound ''Volume not found, err: %v'' [ArgErr])
   \<and> (\<exists>resp. ValidateVolumeCapabilities examplePackage
        \<lparr>val_VolumeId = ''fs-1::ap-1'',
         val_VolumeCapabilities = [\<lparr>AccessMode = MULTI_NODE_MULTI_WRITER\<rparr>]\<rparr> = Inr resp
        \<and> Confirmed resp \<noteq> None)
   \<and> (\<exists>resp. ValidateVolumeCapabilities examplePackage
        \<lparr>val_VolumeId = ''fs-1::ap-1'',
         val_VolumeCapabilities = [\<lparr>AccessMode = SINGLE_NODE_READER_ONLY\<rparr>]\<rparr> = Inr resp
        \<and> Confirmed resp = None)"
proof -
  have modes: "volumeCapAccessModes examplePackage
      = [SINGLE_NODE_WRITER, MULTI_NODE_MULTI_WRITER]"
    by (simp add: examplePackage_def)
  from ValidateVolumeCapabilities_results [where p = examplePackage
      and req = "\<lparr>val_VolumeId = ''bogus'',
                  val_VolumeCapabilities = [\<lparr>AccessMode = MULTI_NODE_MULTI_WRITER\<rparr>]\<rparr>"
      and e = InvalidFormat, THEN conjunct1, THEN mp, THEN conjunct1]
  have first: "ValidateVolumeCapabilities examplePackage
      \<lparr>val_VolumeId = ''bogus'',
       val_VolumeCapabilities = [\<lparr>AccessMode = MULTI_NODE_MULTI_WRITER\<rparr>]\<rparr>
     = Inl (Status NotFound ''Volume not found, err: %v'' [ArgErr])"
    by (simp add: example_parse)
  from ValidateVolumeCapabilities_results [where p = examplePackage
      and req = "\<lparr>val_VolumeId = ''fs-1::ap-1'',
                  val_VolumeCapabilities = [\<lparr>AccessMode = MULTI_NODE_MULTI_WRITER\<rparr>]\<rparr>"
      and parsed = "(''fs-1'', [], ''ap-1'')", THEN conjunct2, THEN mp]
  have second: "\<exists>resp. ValidateVolumeCapabilities examplePackage
        \<lparr>val_VolumeId = ''fs-1::ap-1'',
         val_VolumeCapabilities = [\<lparr>AccessMode = MULTI_NODE_MULTI_WRITER\<rparr>]\<rparr> = Inr resp
        \<and> Confirmed resp \<noteq> None"
    by (simp add: example_parse modes)
  from ValidateVolumeCapabilities_results [where p = examplePackage
      and req = "\<lparr>val_VolumeId = ''fs-1::ap-1'',
                  val_VolumeCapabilities = [\<lparr>AccessMode = SINGLE_NODE_READER_ONLY\<rparr>]\<rparr>"
      and parsed = "(''fs-1'', [], ''ap-1'')", THEN conjunct2, THEN mp]
  have third: "\<exists>resp. ValidateVolumeCapabilities examplePackage
        \<lparr>val_VolumeId = ''fs-1::ap-1'',
         val_VolumeCapabilities = [\<lparr>AccessMode = SINGLE_NODE_READER_ONLY\<rparr>]\<rparr> = Inr resp
        \<and> Confirmed resp = None"
    by (simp add: example_parse modes)
  from first second third show ?thesis by blast
qed


end
